theory Spec2Isabelle
  imports Complex_Main "HOL-Library.Log_Nat"
begin

section \<open>Python floats\<close>

text \<open>
  Every number the generator computes is a Python \<^verbatim>\<open>float\<close> (IEEE 754 binary64). A float
  is modelled by the real number it denotes, and every arithmetic operation by the exact
  operation followed by rounding to 53 significant bits, ties to even. The exponent range
  is not bounded: overflow to infinity and gradual underflow are outside the model (the
  generator's values lie between \<open>10\<^sup>-\<^sup>3\<close> and \<open>10\<^sup>7\<close>).
\<close>

definition round_half_even :: "real \<Rightarrow> int" where
  "round_half_even x =
     (let f = \<lfloor>x\<rfloor>; r = x - of_int f
      in if r < 1 / 2 then f else if 1 / 2 < r then f + 1 else if even f then f else f + 1)"

text \<open>The binary exponent \<open>e\<close> of a positive number: \<open>2\<^sup>e \<le> x < 2\<^sup>e\<^sup>+\<^sup>1\<close>.\<close>

definition binade :: "real \<Rightarrow> int" where
  "binade x = (if 1 \<le> x then bitlen \<lfloor>x\<rfloor> - 1 else - bitlen (\<lceil>1 / x\<rceil> - 1))"

definition fl :: "real \<Rightarrow> real" where
  "fl x = (if x = 0 then 0
           else let u = 2 powi (binade \<bar>x\<bar> - 52)
                in of_int (round_half_even (x / u)) * u)"

definition fmul :: "real \<Rightarrow> real \<Rightarrow> real" where
  "fmul x y = fl (x * y)"

definition fadd :: "real \<Rightarrow> real \<Rightarrow> real" where
  "fadd x y = fl (x + y)"

definition fsub :: "real \<Rightarrow> real \<Rightarrow> real" where
  "fsub x y = fl (x - y)"

definition fdiv :: "real \<Rightarrow> real \<Rightarrow> real" where
  "fdiv x y = fl (x / y)"

text \<open>Conversion of a Python \<^verbatim>\<open>int\<close> operand in mixed arithmetic.\<close>

definition py_float :: "int \<Rightarrow> real" where
  "py_float n = fl (of_int n)"

section \<open>Territory configuration\<close>

text \<open>
  Python strings are written as the bytes of their UTF-8 encoding; two Python strings are
  equal exactly when their encodings are. The letter e with acute accent is the two bytes
  \<^verbatim>\<open>C3 A9\<close>, the letter c with cedilla is \<^verbatim>\<open>C3 A7\<close>.
\<close>

definition La_Reunion :: string where
  "La_Reunion = ''La R'' @ [CHR 0xC3, CHR 0xA9] @ ''union''"

definition Saint_Barthelemy :: string where
  "Saint_Barthelemy = ''Saint-Barth'' @ [CHR 0xC3, CHR 0xA9] @ ''lemy''"

definition Polynesie_francaise :: string where
  "Polynesie_francaise =
     ''Polyn'' @ [CHR 0xC3, CHR 0xA9] @ ''sie fran'' @ [CHR 0xC3, CHR 0xA7] @ ''aise''"

definition Nouvelle_Caledonie :: string where
  "Nouvelle_Caledonie = ''Nouvelle-Cal'' @ [CHR 0xC3, CHR 0xA9] @ ''donie''"

record config =
  allocataires_base :: int
  budget_base :: int
  specificites :: "string list"

datatype py_exception =
    KeyError | IndexError | ValueError | OutOfBoundsDatetime
  | InvalidRangeError | InvalidProfileError

text \<open>
  The last two exceptions are the ones the specification names; no statement of the
  program raises them.
\<close>

definition configs :: "(string \<times> config) list" where
  "configs =
    [(''Guadeloupe'',
        \<lparr>allocataires_base = 120000, budget_base = 450,
         specificites = [''familles_nombreuses'', ''precarite'', ''vieillesse'']\<rparr>),
     (''Martinique'',
        \<lparr>allocataires_base = 110000, budget_base = 420,
         specificites = [''vieillesse'', ''dependance'', ''handicap'']\<rparr>),
     (''Guyane'',
        \<lparr>allocataires_base = 85000, budget_base = 380,
         specificites = [''jeunesse'', ''familles_nombreuses'', ''precarite'']\<rparr>),
     (La_Reunion,
        \<lparr>allocataires_base = 220000, budget_base = 680,
         specificites = [''precarite'', ''emploi'', ''familles_monoparentales'']\<rparr>),
     (''Mayotte'',
        \<lparr>allocataires_base = 65000, budget_base = 280,
         specificites = [''jeunesse'', ''familles_nombreuses'', ''precarite_elevee'']\<rparr>),
     (''Saint-Martin'',
        \<lparr>allocataires_base = 18000, budget_base = 85,
         specificites = [''tourisme'', ''petite_enfance'', ''precarite'']\<rparr>),
     (Saint_Barthelemy,
        \<lparr>allocataires_base = 5000, budget_base = 45,
         specificites = [''vieillesse'', ''tourisme'', ''revenus_eleves'']\<rparr>),
     (''Saint-Pierre-et-Miquelon'',
        \<lparr>allocataires_base = 3500, budget_base = 35,
         specificites = [''isolement'', ''vieillesse'', ''petite_enfance'']\<rparr>),
     (''Wallis-et-Futuna'',
        \<lparr>allocataires_base = 8000, budget_base = 55,
         specificites = [''traditions'', ''jeunesse'', ''isolement'']\<rparr>),
     (Polynesie_francaise,
        \<lparr>allocataires_base = 95000, budget_base = 320,
         specificites = [''isolement'', ''tourisme'', ''jeunesse'']\<rparr>),
     (Nouvelle_Caledonie,
        \<lparr>allocataires_base = 105000, budget_base = 380,
         specificites = [''nickel'', ''vieillesse'', ''precarite'']\<rparr>),
     (''default'',
        \<lparr>allocataires_base = 50000, budget_base = 200,
         specificites = [''prestations_familiales'', ''logement'', ''solidarite'']\<rparr>)]"

text \<open>
  \<^verbatim>\<open>configs.get(self.territoire, configs["default"])\<close>: the subscript is evaluated first and
  raises \<^verbatim>\<open>KeyError\<close> on a missing key; \<^verbatim>\<open>get\<close> never raises.
\<close>

definition get_territoire_config :: "string \<Rightarrow> py_exception + config" where
  "get_territoire_config territoire_name =
     (case map_of configs ''default'' of
        None \<Rightarrow> Inl KeyError
      | Some dflt \<Rightarrow>
          Inr (case map_of configs territoire_name of Some c \<Rightarrow> c | None \<Rightarrow> dflt))"

record analyzer =
  territoire :: string
  start_year :: int
  end_year :: int
  config :: config

text \<open>\<^verbatim>\<open>__init__\<close>; the colour palette plays no part in the data and is left out.\<close>

definition init :: "string \<Rightarrow> py_exception + analyzer" where
  "init territoire_name =
     (case get_territoire_config territoire_name of
        Inl e \<Rightarrow> Inl e
      | Inr c \<Rightarrow>
          Inr \<lparr>territoire = territoire_name, start_year = 2002, end_year = 2025, config = c\<rparr>)"

text \<open>The eleven territories of \<^verbatim>\<open>main\<close>, which are the named keys of the table.\<close>

definition territoires :: "string list" where
  "territoires =
     [''Guadeloupe'', ''Martinique'', ''Guyane'', La_Reunion, ''Mayotte'',
      ''Saint-Martin'', Saint_Barthelemy, ''Saint-Pierre-et-Miquelon'',
      ''Wallis-et-Futuna'', Polynesie_francaise, Nouvelle_Caledonie]"

section \<open>The time-series generator\<close>

text \<open>
  \<^verbatim>\<open>np.random.normal(loc, scale)\<close> reads and advances the global generator state. The state
  is a value of an arbitrary type \<open>'g\<close> and the draw a function from the two arguments and
  the state to the value drawn and the next state.
\<close>

type_synonym 'g normal = "real \<Rightarrow> real \<Rightarrow> 'g \<Rightarrow> real \<times> 'g"

text \<open>
  \<^verbatim>\<open>pd.date_range(start=f'{start_year}-01-01', end=f'{end_year}-12-31', freq='Y')\<close>: the
  year ends from the first to the last year, of which the program only reads the year. A
  pandas timestamp lies between 1677-09-21 and 2262-04-11, and a bound outside raises
  \<^verbatim>\<open>OutOfBoundsDatetime\<close>. Years that are not written with four digits are outside the
  model and are given the same result.
\<close>

definition date_range :: "int \<Rightarrow> int \<Rightarrow> py_exception + int list" where
  "date_range first_year last_year =
     (if 1678 \<le> first_year \<and> first_year \<le> 2262 \<and> 1677 \<le> last_year \<and> last_year \<le> 2261
      then Inr [first_year..last_year]
      else Inl OutOfBoundsDatetime)"

text \<open>
  \<^verbatim>\<open>for i, date in enumerate(dates): ... xs.append(v)\<close>: the body computes the value to
  append from the index, the year of the date and the generator state.
\<close>

fun for_enumerate ::
  "(nat \<Rightarrow> int \<Rightarrow> 'g \<Rightarrow> real \<times> 'g) \<Rightarrow> nat \<Rightarrow> int list \<Rightarrow> 'g \<Rightarrow> real list \<times> 'g" where
  "for_enumerate body i [] g = ([], g)"
| "for_enumerate body i (date # dates) g =
     (let (v, g1) = body i date g;
          (vs, g2) = for_enumerate body (Suc i) dates g1
      in (v # vs, g2))"

definition simulate_allocataires ::
  "'g normal \<Rightarrow> analyzer \<Rightarrow> int list \<Rightarrow> 'g \<Rightarrow> real list \<times> 'g" where
  "simulate_allocataires normal self dates g0 =
     (let base_allocataires = py_float (allocataires_base (config self))
      in for_enumerate
           (\<lambda>i date g.
              let growth_rate =
                    (if territoire self \<in> set [''Mayotte'', ''Guyane'']
                     then fl 0.025
                     else if territoire self \<in> set [La_Reunion, Polynesie_francaise]
                     then fl 0.018
                     else fl 0.012);
                  growth = fadd 1 (fmul growth_rate (py_float (int i)))
              in (fmul base_allocataires growth, g))
           0 dates g0)"

definition simulate_prestations ::
  "'g normal \<Rightarrow> analyzer \<Rightarrow> int list \<Rightarrow> 'g \<Rightarrow> real list \<times> 'g" where
  "simulate_prestations normal self dates g0 =
     (let base_prestations = fmul (py_float (budget_base (config self))) (fl 0.85)
      in for_enumerate
           (\<lambda>i date g.
              let growth =
                    (if territoire self \<in> set [''Mayotte'', ''Guyane'']
                     then fadd 1 (fmul (fl 0.028) (py_float (int i)))
                     else if territoire self \<in> set [La_Reunion, Polynesie_francaise]
                     then fadd 1 (fmul (fl 0.022) (py_float (int i)))
                     else fadd 1 (fmul (fl 0.018) (py_float (int i))));
                  (noise, g') = normal 1 (fl 0.07) g
              in (fmul (fmul base_prestations growth) noise, g'))
           0 dates g0)"

definition simulate_total_revenue ::
  "'g normal \<Rightarrow> analyzer \<Rightarrow> int list \<Rightarrow> 'g \<Rightarrow> real list \<times> 'g" where
  "simulate_total_revenue normal self dates g0 =
     (let base_revenue = py_float (budget_base (config self))
      in for_enumerate
           (\<lambda>i date g.
              let growth_rate =
                    (if territoire self \<in> set [''Mayotte'', ''Guyane'']
                     then fl 0.042
                     else if territoire self \<in> set [La_Reunion, Polynesie_francaise]
                     then fl 0.035
                     else fl 0.028);
                  growth = fadd 1 (fmul growth_rate (py_float (int i)));
                  (noise, g') = normal 1 (fl 0.08) g
              in (fmul (fmul base_revenue growth) noise, g'))
           0 dates g0)"

definition simulate_social_contributions ::
  "'g normal \<Rightarrow> analyzer \<Rightarrow> int list \<Rightarrow> 'g \<Rightarrow> real list \<times> 'g" where
  "simulate_social_contributions normal self dates g0 =
     (let base_contributions = fmul (py_float (budget_base (config self))) (fl 0.65)
      in for_enumerate
           (\<lambda>i date g.
              let growth =
                    (if territoire self \<in> set [''Mayotte'', ''Guyane'']
                     then fadd 1 (fmul (fl 0.035) (py_float (int i)))
                     else if territoire self \<in> set [La_Reunion, Polynesie_francaise]
                     then fadd 1 (fmul (fl 0.028) (py_float (int i)))
                     else fadd 1 (fmul (fl 0.022) (py_float (int i))));
                  (noise, g') = normal 1 (fl 0.06) g
              in (fmul (fmul base_contributions growth) noise, g'))
           0 dates g0)"

definition simulate_state_contributions ::
  "'g normal \<Rightarrow> analyzer \<Rightarrow> int list \<Rightarrow> 'g \<Rightarrow> real list \<times> 'g" where
  "simulate_state_contributions normal self dates g0 =
     (let base_state = fmul (py_float (budget_base (config self))) (fl 0.30)
      in for_enumerate
           (\<lambda>i year g.
              let increase =
                    (if 2010 \<le> year
                     then (if territoire self \<in> set [''Mayotte'', ''Guyane'']
                           then fadd 1 (fmul (fl 0.022) (py_float (year - 2010)))
                           else if territoire self \<in> set [La_Reunion, Polynesie_francaise]
                           then fadd 1 (fmul (fl 0.018) (py_float (year - 2010)))
                           else fadd 1 (fmul (fl 0.015) (py_float (year - 2010))))
                     else 1);
                  (noise, g') = normal 1 (fl 0.05) g
              in (fmul (fmul base_state increase) noise, g'))
           0 dates g0)"

definition simulate_other_revenue ::
  "'g normal \<Rightarrow> analyzer \<Rightarrow> int list \<Rightarrow> 'g \<Rightarrow> real list \<times> 'g" where
  "simulate_other_revenue normal self dates g0 =
     (let base_other = fmul (py_float (budget_base (config self))) (fl 0.05)
      in for_enumerate
           (\<lambda>i date g.
              let growth = fadd 1 (fmul (fl 0.025) (py_float (int i)));
                  (noise, g') = normal 1 (fl 0.10) g
              in (fmul (fmul base_other growth) noise, g'))
           0 dates g0)"

definition simulate_total_expenses ::
  "'g normal \<Rightarrow> analyzer \<Rightarrow> int list \<Rightarrow> 'g \<Rightarrow> real list \<times> 'g" where
  "simulate_total_expenses normal self dates g0 =
     (let base_expenses = fmul (py_float (budget_base (config self))) (fl 0.95)
      in for_enumerate
           (\<lambda>i date g.
              let growth =
                    (if territoire self \<in> set [''Mayotte'', ''Guyane'']
                     then fadd 1 (fmul (fl 0.038) (py_float (int i)))
                     else if territoire self \<in> set [La_Reunion, Polynesie_francaise]
                     then fadd 1 (fmul (fl 0.032) (py_float (int i)))
                     else fadd 1 (fmul (fl 0.026) (py_float (int i))));
                  (noise, g') = normal 1 (fl 0.07) g
              in (fmul (fmul base_expenses growth) noise, g'))
           0 dates g0)"

definition simulate_family_benefits ::
  "'g normal \<Rightarrow> analyzer \<Rightarrow> int list \<Rightarrow> 'g \<Rightarrow> real list \<times> 'g" where
  "simulate_family_benefits normal self dates g0 =
     (let base_family = fmul (py_float (budget_base (config self))) (fl 0.45);
          multiplier = (if ''familles_nombreuses'' \<in> set (specificites (config self)) then fl 1.4 else 1)
      in for_enumerate
           (\<lambda>i date g.
              let growth =
                    (if territoire self \<in> set [''Mayotte'', ''Guyane'']
                     then fadd 1 (fmul (fl 0.032) (py_float (int i)))
                     else if territoire self \<in> set [La_Reunion, Polynesie_francaise]
                     then fadd 1 (fmul (fl 0.028) (py_float (int i)))
                     else fadd 1 (fmul (fl 0.022) (py_float (int i))));
                  (noise, g') = normal 1 (fl 0.06) g
              in (fmul (fmul (fmul base_family growth) multiplier) noise, g'))
           0 dates g0)"

definition simulate_housing_benefits ::
  "'g normal \<Rightarrow> analyzer \<Rightarrow> int list \<Rightarrow> 'g \<Rightarrow> real list \<times> 'g" where
  "simulate_housing_benefits normal self dates g0 =
     (let base_housing = fmul (py_float (budget_base (config self))) (fl 0.25)
      in for_enumerate
           (\<lambda>i date g.
              let growth =
                    (if territoire self \<in> set [''Mayotte'', ''Guyane'']
                     then fadd 1 (fmul (fl 0.035) (py_float (int i)))
                     else if territoire self \<in> set [La_Reunion, Polynesie_francaise]
                     then fadd 1 (fmul (fl 0.03) (py_float (int i)))
                     else fadd 1 (fmul (fl 0.024) (py_float (int i))));
                  (noise, g') = normal 1 (fl 0.08) g
              in (fmul (fmul base_housing growth) noise, g'))
           0 dates g0)"

definition simulate_solidarity_benefits ::
  "'g normal \<Rightarrow> analyzer \<Rightarrow> int list \<Rightarrow> 'g \<Rightarrow> real list \<times> 'g" where
  "simulate_solidarity_benefits normal self dates g0 =
     (let base_solidarity = fmul (py_float (budget_base (config self))) (fl 0.20);
          multiplier = (if ''precarite'' \<in> set (specificites (config self)) then fl 1.5 else 1)
      in for_enumerate
           (\<lambda>i date g.
              let growth =
                    (if territoire self \<in> set [''Mayotte'', ''Guyane'']
                     then fadd 1 (fmul (fl 0.04) (py_float (int i)))
                     else if territoire self \<in> set [La_Reunion, Polynesie_francaise]
                     then fadd 1 (fmul (fl 0.035) (py_float (int i)))
                     else fadd 1 (fmul (fl 0.028) (py_float (int i))));
                  (noise, g') = normal 1 (fl 0.09) g
              in (fmul (fmul (fmul base_solidarity growth) multiplier) noise, g'))
           0 dates g0)"

definition simulate_management_costs ::
  "'g normal \<Rightarrow> analyzer \<Rightarrow> int list \<Rightarrow> 'g \<Rightarrow> real list \<times> 'g" where
  "simulate_management_costs normal self dates g0 =
     (let base_management = fmul (py_float (budget_base (config self))) (fl 0.05)
      in for_enumerate
           (\<lambda>i date g.
              let growth = fadd 1 (fmul (fl 0.02) (py_float (int i)));
                  (noise, g') = normal 1 (fl 0.04) g
              in (fmul (fmul base_management growth) noise, g'))
           0 dates g0)"

definition simulate_coverage_rate ::
  "'g normal \<Rightarrow> analyzer \<Rightarrow> int list \<Rightarrow> 'g \<Rightarrow> real list \<times> 'g" where
  "simulate_coverage_rate normal self dates g0 =
     for_enumerate
       (\<lambda>i year g.
          let base_rate =
                (if territoire self \<in> set [''Mayotte'', ''Guyane'']
                 then fl 0.85
                 else if territoire self \<in> set [La_Reunion, Polynesie_francaise]
                 then fl 0.88
                 else fl 0.92);
              improvement =
                (if 2010 \<le> year then fadd 1 (fmul (fl 0.005) (py_float (year - 2010))) else 1);
              (noise, g') = normal 1 (fl 0.03) g
          in (fmul (fmul base_rate improvement) noise, g'))
       0 dates g0"

definition simulate_management_ratio ::
  "'g normal \<Rightarrow> analyzer \<Rightarrow> int list \<Rightarrow> 'g \<Rightarrow> real list \<times> 'g" where
  "simulate_management_ratio normal self dates g0 =
     for_enumerate
       (\<lambda>i year g.
          let base_ratio =
                (if territoire self \<in> set [''Saint-Pierre-et-Miquelon'', ''Wallis-et-Futuna'']
                 then fl 0.075
                 else if territoire self \<in> set [''Mayotte'', ''Guyane'']
                 then fl 0.065
                 else fl 0.055);
              improvement =
                (if 2010 \<le> year then fsub 1 (fmul (fl 0.003) (py_float (year - 2010))) else 1);
              (noise, g') = normal 1 (fl 0.02) g
          in (fmul (fmul base_ratio improvement) noise, g'))
       0 dates g0"

definition simulate_account_balance ::
  "'g normal \<Rightarrow> analyzer \<Rightarrow> int list \<Rightarrow> 'g \<Rightarrow> real list \<times> 'g" where
  "simulate_account_balance normal self dates g0 =
     for_enumerate
       (\<lambda>i year g.
          let base_balance = fmul (py_float (budget_base (config self))) (fl 0.03);
              improvement =
                (if 2010 \<le> year then fadd 1 (fmul (fl 0.01) (py_float (year - 2010))) else 1);
              (noise, g') = normal 1 (fl 0.15) g
          in (fmul (fmul base_balance improvement) noise, g'))
       0 dates g0"

definition simulate_family_allocations ::
  "'g normal \<Rightarrow> analyzer \<Rightarrow> int list \<Rightarrow> 'g \<Rightarrow> real list \<times> 'g" where
  "simulate_family_allocations normal self dates g0 =
     (let base_allocation = fmul (py_float (budget_base (config self))) (fl 0.25);
          multiplier = (if ''familles_nombreuses'' \<in> set (specificites (config self)) then fl 1.4 else 1)
      in for_enumerate
           (\<lambda>i date g.
              let growth =
                    (if territoire self \<in> set [''Mayotte'', ''Guyane'']
                     then fadd 1 (fmul (fl 0.03) (py_float (int i)))
                     else if territoire self \<in> set [La_Reunion, Polynesie_francaise]
                     then fadd 1 (fmul (fl 0.025) (py_float (int i)))
                     else fadd 1 (fmul (fl 0.02) (py_float (int i))));
                  (noise, g') = normal 1 (fl 0.06) g
              in (fmul (fmul (fmul base_allocation growth) multiplier) noise, g'))
           0 dates g0)"

definition simulate_ars ::
  "'g normal \<Rightarrow> analyzer \<Rightarrow> int list \<Rightarrow> 'g \<Rightarrow> real list \<times> 'g" where
  "simulate_ars normal self dates g0 =
     (let base_ars = fmul (py_float (budget_base (config self))) (fl 0.08);
          multiplier = (if ''jeunesse'' \<in> set (specificites (config self)) then fl 1.3 else 1)
      in for_enumerate
           (\<lambda>i date g.
              let growth =
                    (if territoire self \<in> set [''Mayotte'', ''Guyane'']
                     then fadd 1 (fmul (fl 0.032) (py_float (int i)))
                     else if territoire self \<in> set [La_Reunion, Polynesie_francaise]
                     then fadd 1 (fmul (fl 0.028) (py_float (int i)))
                     else fadd 1 (fmul (fl 0.022) (py_float (int i))));
                  (noise, g') = normal 1 (fl 0.07) g
              in (fmul (fmul (fmul base_ars growth) multiplier) noise, g'))
           0 dates g0)"

definition simulate_apl ::
  "'g normal \<Rightarrow> analyzer \<Rightarrow> int list \<Rightarrow> 'g \<Rightarrow> real list \<times> 'g" where
  "simulate_apl normal self dates g0 =
     (let base_apl = fmul (py_float (budget_base (config self))) (fl 0.20)
      in for_enumerate
           (\<lambda>i date g.
              let growth =
                    (if territoire self \<in> set [''Mayotte'', ''Guyane'']
                     then fadd 1 (fmul (fl 0.036) (py_float (int i)))
                     else if territoire self \<in> set [La_Reunion, Polynesie_francaise]
                     then fadd 1 (fmul (fl 0.032) (py_float (int i)))
                     else fadd 1 (fmul (fl 0.026) (py_float (int i))));
                  (noise, g') = normal 1 (fl 0.08) g
              in (fmul (fmul base_apl growth) noise, g'))
           0 dates g0)"

definition simulate_rsa ::
  "'g normal \<Rightarrow> analyzer \<Rightarrow> int list \<Rightarrow> 'g \<Rightarrow> real list \<times> 'g" where
  "simulate_rsa normal self dates g0 =
     (let base_rsa = fmul (py_float (budget_base (config self))) (fl 0.15);
          multiplier = (if ''precarite'' \<in> set (specificites (config self)) then fl 1.6 else 1)
      in for_enumerate
           (\<lambda>i date g.
              let growth =
                    (if territoire self \<in> set [''Mayotte'', ''Guyane'']
                     then fadd 1 (fmul (fl 0.042) (py_float (int i)))
                     else if territoire self \<in> set [La_Reunion, Polynesie_francaise]
                     then fadd 1 (fmul (fl 0.038) (py_float (int i)))
                     else fadd 1 (fmul (fl 0.03) (py_float (int i))));
                  (noise, g') = normal 1 (fl 0.09) g
              in (fmul (fmul (fmul base_rsa growth) multiplier) noise, g'))
           0 dates g0)"

definition simulate_birth_grant ::
  "'g normal \<Rightarrow> analyzer \<Rightarrow> int list \<Rightarrow> 'g \<Rightarrow> real list \<times> 'g" where
  "simulate_birth_grant normal self dates g0 =
     (let base_birth = fmul (py_float (budget_base (config self))) (fl 0.04);
          multiplier = (if ''jeunesse'' \<in> set (specificites (config self)) then fl 1.5 else 1)
      in for_enumerate
           (\<lambda>i date g.
              let growth =
                    (if territoire self \<in> set [''Mayotte'', ''Guyane'']
                     then fadd 1 (fmul (fl 0.026) (py_float (int i)))
                     else if territoire self \<in> set [La_Reunion, Polynesie_francaise]
                     then fadd 1 (fmul (fl 0.022) (py_float (int i)))
                     else fadd 1 (fmul (fl 0.018) (py_float (int i))));
                  (noise, g') = normal 1 (fl 0.10) g
              in (fmul (fmul (fmul base_birth growth) multiplier) noise, g'))
           0 dates g0)"

text \<open>A row of the data frame: the year and the nineteen series, under the column names.\<close>

record row =
  Annee :: int
  Nombre_Allocataires :: real
  Prestations_Versees :: real
  Recettes_Totales :: real
  Cotisations_Sociales :: real
  Contributions_Etat :: real
  Autres_Recettes :: real
  Depenses_Totales :: real
  Prestations_Familiales :: real
  Prestations_Logement :: real
  Prestations_Solidarite :: real
  Frais_Gestion :: real
  Taux_Couverture :: real
  Ratio_Gestion :: real
  Solde_Compte :: real
  Allocations_Familiales :: real
  ARS :: real
  APL :: real
  RSA :: real
  Prime_Naissance :: real

text \<open>
  \<^verbatim>\<open>df.loc[i, c] *= m\<close> for the row \<open>i\<close> being visited. The tests are the statements of the
  loop body, in their order; each reads the row as the statements before it left it.
\<close>

definition trend_row :: "row \<Rightarrow> row" where
  "trend_row row0 =
     (let year = Annee row0;
          row1 = (if 2002 \<le> year \<and> year \<le> 2005
                  then row0\<lparr>Contributions_Etat := fmul (Contributions_Etat row0) (fl 1.1),
                            Prestations_Familiales := fmul (Prestations_Familiales row0) (fl 1.15)\<rparr>
                  else row0);
          row2 = (if 2006 \<le> year \<and> year \<le> 2010
                  then row1\<lparr>RSA := fmul (RSA row1) (fl 1.25),
                            Prestations_Solidarite := fmul (Prestations_Solidarite row1) (fl 1.3)\<rparr>
                  else row1);
          row3 = (if 2008 \<le> year \<and> year \<le> 2009
                  then row2\<lparr>Cotisations_Sociales := fmul (Cotisations_Sociales row2) (fl 0.92),
                            RSA := fmul (RSA row2) (fl 1.15)\<rparr>
                  else if 2011 \<le> year \<and> year \<le> 2015
                  then row2\<lparr>Contributions_Etat := fmul (Contributions_Etat row2) (fl 1.12),
                            Allocations_Familiales := fmul (Allocations_Familiales row2) (fl 1.08)\<rparr>
                  else row2);
          row4 = (if year = 2017
                  then row3\<lparr>Contributions_Etat := fmul (Contributions_Etat row3) (fl 1.18),
                            RSA := fmul (RSA row3) (fl 1.10)\<rparr>
                  else row3);
          row5 = (if 2020 \<le> year \<and> year \<le> 2021
                  then (if year = 2020
                        then row4\<lparr>Cotisations_Sociales := fmul (Cotisations_Sociales row4) (fl 0.85),
                                  Contributions_Etat := fmul (Contributions_Etat row4) (fl 1.25),
                                  RSA := fmul (RSA row4) (fl 1.35)\<rparr>
                        else row4)
                  else row4);
          row6 = (if 2022 \<le> year
                  then row5\<lparr>Contributions_Etat := fmul (Contributions_Etat row5) (fl 1.08),
                            Prestations_Logement := fmul (Prestations_Logement row5) (fl 1.12),
                            ARS := fmul (ARS row5) (fl 1.10)\<rparr>
                  else row5)
      in row6)"

text \<open>\<^verbatim>\<open>for i, row in df.iterrows()\<close>: every row is visited once and only its own cells change.\<close>

definition add_caf_trends :: "row list \<Rightarrow> row list" where
  "add_caf_trends df = map trend_row df"

text \<open>
  The columns are computed in the order of the source, each call drawing from the
  generator state the call before it left. \<^verbatim>\<open>pd.DataFrame(data)\<close> puts the \<open>i\<close>-th entry
  of every column into row \<open>i\<close>; the columns all have the length of \<open>dates\<close>.
\<close>

definition generate_financial_data ::
  "'g normal \<Rightarrow> analyzer \<Rightarrow> 'g \<Rightarrow> py_exception + row list \<times> 'g" where
  "generate_financial_data normal self g0 =
     (case date_range (start_year self) (end_year self) of
        Inl e \<Rightarrow> Inl e
      | Inr dates \<Rightarrow>
          let (Nombre_Allocataires_col, g1) = simulate_allocataires normal self dates g0;
              (Prestations_Versees_col, g2) = simulate_prestations normal self dates g1;
              (Recettes_Totales_col, g3) = simulate_total_revenue normal self dates g2;
              (Cotisations_Sociales_col, g4) = simulate_social_contributions normal self dates g3;
              (Contributions_Etat_col, g5) = simulate_state_contributions normal self dates g4;
              (Autres_Recettes_col, g6) = simulate_other_revenue normal self dates g5;
              (Depenses_Totales_col, g7) = simulate_total_expenses normal self dates g6;
              (Prestations_Familiales_col, g8) = simulate_family_benefits normal self dates g7;
              (Prestations_Logement_col, g9) = simulate_housing_benefits normal self dates g8;
              (Prestations_Solidarite_col, g10) = simulate_solidarity_benefits normal self dates g9;
              (Frais_Gestion_col, g11) = simulate_management_costs normal self dates g10;
              (Taux_Couverture_col, g12) = simulate_coverage_rate normal self dates g11;
              (Ratio_Gestion_col, g13) = simulate_management_ratio normal self dates g12;
              (Solde_Compte_col, g14) = simulate_account_balance normal self dates g13;
              (Allocations_Familiales_col, g15) = simulate_family_allocations normal self dates g14;
              (ARS_col, g16) = simulate_ars normal self dates g15;
              (APL_col, g17) = simulate_apl normal self dates g16;
              (RSA_col, g18) = simulate_rsa normal self dates g17;
              (Prime_Naissance_col, g19) = simulate_birth_grant normal self dates g18;
              df = map (\<lambda>i.
                     \<lparr>Annee = dates ! i,
                      Nombre_Allocataires = Nombre_Allocataires_col ! i,
                      Prestations_Versees = Prestations_Versees_col ! i,
                      Recettes_Totales = Recettes_Totales_col ! i,
                      Cotisations_Sociales = Cotisations_Sociales_col ! i,
                      Contributions_Etat = Contributions_Etat_col ! i,
                      Autres_Recettes = Autres_Recettes_col ! i,
                      Depenses_Totales = Depenses_Totales_col ! i,
                      Prestations_Familiales = Prestations_Familiales_col ! i,
                      Prestations_Logement = Prestations_Logement_col ! i,
                      Prestations_Solidarite = Prestations_Solidarite_col ! i,
                      Frais_Gestion = Frais_Gestion_col ! i,
                      Taux_Couverture = Taux_Couverture_col ! i,
                      Ratio_Gestion = Ratio_Gestion_col ! i,
                      Solde_Compte = Solde_Compte_col ! i,
                      Allocations_Familiales = Allocations_Familiales_col ! i,
                      ARS = ARS_col ! i,
                      APL = APL_col ! i,
                      RSA = RSA_col ! i,
                      Prime_Naissance = Prime_Naissance_col ! i\<rparr>)
                   [0..<length dates]
          in Inr (add_caf_trends df, g19))"

section \<open>Summary statistics\<close>

text \<open>
  \<^verbatim>\<open>series.iloc[k]\<close>: a negative position counts from the end, a position outside the
  series raises \<^verbatim>\<open>IndexError\<close>.
\<close>

definition iloc :: "'a list \<Rightarrow> int \<Rightarrow> py_exception + 'a" where
  "iloc xs k =
     (let n = int (length xs); j = (if k < 0 then n + k else k)
      in if 0 \<le> j \<and> j < n then Inr (xs ! nat j) else Inl IndexError)"

text \<open>
  The cells are numpy floats: dividing by zero raises nothing and gives an infinity or a
  NaN, which the subtraction and the product keep.
\<close>

datatype np_float64 = Finite real | Inf_or_NaN

definition growth_percent :: "real list \<Rightarrow> py_exception + np_float64" where
  "growth_percent series =
     (case iloc series (- 1) of
        Inl e \<Rightarrow> Inl e
      | Inr last_value \<Rightarrow>
          (case iloc series 0 of
             Inl e \<Rightarrow> Inl e
           | Inr first_value \<Rightarrow>
               Inr (if first_value = 0 then Inf_or_NaN
                    else Finite (fmul (fsub (fdiv last_value first_value) 1) 100))))"

text \<open>The two growth rates of \<^verbatim>\<open>_generate_financial_insights\<close>.\<close>

definition revenue_growth :: "row list \<Rightarrow> py_exception + np_float64" where
  "revenue_growth df = growth_percent (map Recettes_Totales df)"

definition allocataires_growth :: "row list \<Rightarrow> py_exception + np_float64" where
  "allocataires_growth df = growth_percent (map Nombre_Allocataires df)"

text \<open>
  The format \<^verbatim>\<open>:.1f\<close> prints the decimal with one fractional digit nearest to the exact
  value of the float, ties to even: the number of tenths printed.
\<close>

definition tenths_printed :: "real \<Rightarrow> int" where
  "tenths_printed x = round_half_even (x * 10)"

section \<open>The era adjustments as the specification lists them\<close>

text \<open>
  The table of step 8 of the specification, row by row in its order: the years a rule
  applies to, the field it targets and its multiplier.
\<close>

datatype era_field =
    State_contributions | Family_benefits | Solidarity_income | Solidarity_benefits
  | Social_contributions | Family_allowance | Housing_benefits | Back_to_school_grant

definition era_table :: "((int \<Rightarrow> bool) \<times> era_field \<times> real) list" where
  "era_table =
     [(\<lambda>y. 2002 \<le> y \<and> y \<le> 2005, State_contributions, 1.10),
      (\<lambda>y. 2002 \<le> y \<and> y \<le> 2005, Family_benefits, 1.15),
      (\<lambda>y. 2006 \<le> y \<and> y \<le> 2010, Solidarity_income, 1.25),
      (\<lambda>y. 2006 \<le> y \<and> y \<le> 2010, Solidarity_benefits, 1.30),
      (\<lambda>y. 2008 \<le> y \<and> y \<le> 2009, Social_contributions, 0.92),
      (\<lambda>y. 2008 \<le> y \<and> y \<le> 2009, Solidarity_income, 1.15),
      (\<lambda>y. 2011 \<le> y \<and> y \<le> 2015, State_contributions, 1.12),
      (\<lambda>y. 2011 \<le> y \<and> y \<le> 2015, Family_allowance, 1.08),
      (\<lambda>y. y = 2017, State_contributions, 1.18),
      (\<lambda>y. y = 2017, Solidarity_income, 1.10),
      (\<lambda>y. y = 2020, Social_contributions, 0.85),
      (\<lambda>y. y = 2020, State_contributions, 1.25),
      (\<lambda>y. y = 2020, Solidarity_income, 1.35),
      (\<lambda>y. 2022 \<le> y, State_contributions, 1.08),
      (\<lambda>y. 2022 \<le> y, Housing_benefits, 1.12),
      (\<lambda>y. 2022 \<le> y, Back_to_school_grant, 1.10)]"

text \<open>The multipliers the table lists for a field in a year, as float literals.\<close>

definition listed_multipliers :: "era_field \<Rightarrow> int \<Rightarrow> real list" where
  "listed_multipliers f y =
     map (\<lambda>(p, f', m). fl m) (filter (\<lambda>(p, f', m). f' = f \<and> p y) era_table)"

text \<open>A value multiplied by each multiplier of a list in turn, rounding after each product.\<close>

definition multiplied_by :: "real \<Rightarrow> real list \<Rightarrow> real" where
  "multiplied_by x ms = foldl fmul x ms"

text \<open>The row as the table says one pass leaves it: the field of each rule and its column.\<close>

definition adjusted_as_listed :: "row \<Rightarrow> row" where
  "adjusted_as_listed r =
     r\<lparr>Contributions_Etat :=
         multiplied_by (Contributions_Etat r) (listed_multipliers State_contributions (Annee r)),
       Prestations_Familiales :=
         multiplied_by (Prestations_Familiales r) (listed_multipliers Family_benefits (Annee r)),
       RSA :=
         multiplied_by (RSA r) (listed_multipliers Solidarity_income (Annee r)),
       Prestations_Solidarite :=
         multiplied_by (Prestations_Solidarite r) (listed_multipliers Solidarity_benefits (Annee r)),
       Cotisations_Sociales :=
         multiplied_by (Cotisations_Sociales r) (listed_multipliers Social_contributions (Annee r)),
       Allocations_Familiales :=
         multiplied_by (Allocations_Familiales r) (listed_multipliers Family_allowance (Annee r)),
       Prestations_Logement :=
         multiplied_by (Prestations_Logement r) (listed_multipliers Housing_benefits (Annee r)),
       ARS :=
         multiplied_by (ARS r) (listed_multipliers Back_to_school_grant (Annee r))\<rparr>"

text \<open>The column that holds a field of the table.\<close>

fun column_of :: "era_field \<Rightarrow> row \<Rightarrow> real" where
  "column_of State_contributions r = Contributions_Etat r"
| "column_of Family_benefits r = Prestations_Familiales r"
| "column_of Solidarity_income r = RSA r"
| "column_of Solidarity_benefits r = Prestations_Solidarite r"
| "column_of Social_contributions r = Cotisations_Sociales r"
| "column_of Family_allowance r = Allocations_Familiales r"
| "column_of Housing_benefits r = Prestations_Logement r"
| "column_of Back_to_school_grant r = ARS r"

text \<open>A row of the given year whose nineteen series all hold the given value.\<close>

definition flat_row :: "int \<Rightarrow> real \<Rightarrow> row" where
  "flat_row y v =
     \<lparr>Annee = y,
      Nombre_Allocataires = v,
      Prestations_Versees = v,
      Recettes_Totales = v,
      Cotisations_Sociales = v,
      Contributions_Etat = v,
      Autres_Recettes = v,
      Depenses_Totales = v,
      Prestations_Familiales = v,
      Prestations_Logement = v,
      Prestations_Solidarite = v,
      Frais_Gestion = v,
      Taux_Couverture = v,
      Ratio_Gestion = v,
      Solde_Compte = v,
      Allocations_Familiales = v,
      ARS = v,
      APL = v,
      RSA = v,
      Prime_Naissance = v\<rparr>"

section \<open>Draws and generator states inside a loop\<close>

text \<open>
  A draw with fixed arguments, \<open>normal 1 sd\<close>, takes a generator state to the value drawn
  and the next state. The state after \<open>k\<close> such draws from state \<open>g\<close>, and the value of the
  draw that follows them: the noise of iteration \<open>k\<close> of a loop that draws once per
  iteration.
\<close>

fun after_draws :: "('g \<Rightarrow> real \<times> 'g) \<Rightarrow> nat \<Rightarrow> 'g \<Rightarrow> 'g" where
  "after_draws draw 0 g = g"
| "after_draws draw (Suc k) g = after_draws draw k (snd (draw g))"

definition noise_at :: "('g \<Rightarrow> real \<times> 'g) \<Rightarrow> nat \<Rightarrow> 'g \<Rightarrow> real" where
  "noise_at draw k g = fst (draw (after_draws draw k g))"

text \<open>
  The state after a sequence of loops over \<open>n\<close> dates, each drawing once per date with its
  own deviation.
\<close>

fun after_loops :: "'g normal \<Rightarrow> nat \<Rightarrow> real list \<Rightarrow> 'g \<Rightarrow> 'g" where
  "after_loops normal n [] g = g"
| "after_loops normal n (sd # sds) g = after_loops normal n sds (after_draws (normal 1 (fl sd)) n g)"

text \<open>
  Row \<open>i\<close> of the table before the era adjustments: each series is computed from the state
  the loops before it have left.
\<close>

definition raw_row :: "'g normal \<Rightarrow> analyzer \<Rightarrow> int list \<Rightarrow> 'g \<Rightarrow> nat \<Rightarrow> row" where
  "raw_row normal self dates g0 i =
     \<lparr>Annee = dates ! i,
      Nombre_Allocataires =
        fst (simulate_allocataires normal self dates
          g0) ! i,
      Prestations_Versees =
        fst (simulate_prestations normal self dates
          g0) ! i,
      Recettes_Totales =
        fst (simulate_total_revenue normal self dates
          (after_loops normal (length dates) [0.07] g0)) ! i,
      Cotisations_Sociales =
        fst (simulate_social_contributions normal self dates
          (after_loops normal (length dates) [0.07, 0.08] g0)) ! i,
      Contributions_Etat =
        fst (simulate_state_contributions normal self dates
          (after_loops normal (length dates) [0.07, 0.08, 0.06] g0)) ! i,
      Autres_Recettes =
        fst (simulate_other_revenue normal self dates
          (after_loops normal (length dates) [0.07, 0.08, 0.06, 0.05] g0)) ! i,
      Depenses_Totales =
        fst (simulate_total_expenses normal self dates
          (after_loops normal (length dates) [0.07, 0.08, 0.06, 0.05, 0.10] g0)) ! i,
      Prestations_Familiales =
        fst (simulate_family_benefits normal self dates
          (after_loops normal (length dates) [0.07, 0.08, 0.06, 0.05, 0.10, 0.07] g0)) ! i,
      Prestations_Logement =
        fst (simulate_housing_benefits normal self dates
          (after_loops normal (length dates) [0.07, 0.08, 0.06, 0.05, 0.10, 0.07, 0.06] g0)) ! i,
      Prestations_Solidarite =
        fst (simulate_solidarity_benefits normal self dates
          (after_loops normal (length dates) [0.07, 0.08, 0.06, 0.05, 0.10, 0.07, 0.06, 0.08] g0)) ! i,
      Frais_Gestion =
        fst (simulate_management_costs normal self dates
          (after_loops normal (length dates) [0.07, 0.08, 0.06, 0.05, 0.10, 0.07, 0.06, 0.08, 0.09] g0)) ! i,
      Taux_Couverture =
        fst (simulate_coverage_rate normal self dates
          (after_loops normal (length dates) [0.07, 0.08, 0.06, 0.05, 0.10, 0.07, 0.06, 0.08, 0.09, 0.04] g0)) ! i,
      Ratio_Gestion =
        fst (simulate_management_ratio normal self dates
          (after_loops normal (length dates) [0.07, 0.08, 0.06, 0.05, 0.10, 0.07, 0.06, 0.08, 0.09, 0.04, 0.03] g0)) ! i,
      Solde_Compte =
        fst (simulate_account_balance normal self dates
          (after_loops normal (length dates) [0.07, 0.08, 0.06, 0.05, 0.10, 0.07, 0.06, 0.08, 0.09, 0.04, 0.03, 0.02] g0)) ! i,
      Allocations_Familiales =
        fst (simulate_family_allocations normal self dates
          (after_loops normal (length dates) [0.07, 0.08, 0.06, 0.05, 0.10, 0.07, 0.06, 0.08, 0.09, 0.04, 0.03, 0.02, 0.15] g0)) ! i,
      ARS =
        fst (simulate_ars normal self dates
          (after_loops normal (length dates) [0.07, 0.08, 0.06, 0.05, 0.10, 0.07, 0.06, 0.08, 0.09, 0.04, 0.03, 0.02, 0.15, 0.06] g0)) ! i,
      APL =
        fst (simulate_apl normal self dates
          (after_loops normal (length dates) [0.07, 0.08, 0.06, 0.05, 0.10, 0.07, 0.06, 0.08, 0.09, 0.04, 0.03, 0.02, 0.15, 0.06, 0.07] g0)) ! i,
      RSA =
        fst (simulate_rsa normal self dates
          (after_loops normal (length dates) [0.07, 0.08, 0.06, 0.05, 0.10, 0.07, 0.06, 0.08, 0.09, 0.04, 0.03, 0.02, 0.15, 0.06, 0.07, 0.08] g0)) ! i,
      Prime_Naissance =
        fst (simulate_birth_grant normal self dates
          (after_loops normal (length dates) [0.07, 0.08, 0.06, 0.05, 0.10, 0.07, 0.06, 0.08, 0.09, 0.04, 0.03, 0.02, 0.15, 0.06, 0.07, 0.08, 0.09] g0)) ! i\<rparr>"

text \<open>The deviations of the eighteen noisy series, in the order of their loops.\<close>

definition deviations :: "real list" where
  "deviations =
     [0.07, 0.08, 0.06, 0.05, 0.10, 0.07, 0.06, 0.08, 0.09, 0.04, 0.03, 0.02, 0.15, 0.06, 0.07, 0.08, 0.09, 0.10]"

text \<open>The noise disabled: a generator whose every draw is 1.0.\<close>

definition quiet :: "unit normal" where
  "quiet loc scale u = (1, u)"

text \<open>The noise disabled on a generator that has a state: it counts its draws.\<close>

definition counting :: "nat normal" where
  "counting loc scale n = (1, Suc n)"

section \<open>The formulas as the specification words them\<close>

text \<open>
  The growth tier of a territory selects one of three rates (very high, high, moderate);
  index-based growth is \<open>1 + rate * year_index\<close>; a threshold-gated factor is 1 before 2010
  and \<open>1 + rate * (year - 2010)\<close> from 2010 on; a tag multiplier is the boost when the tag
  is present and 1.0 otherwise. Rates and boosts are float literals.
\<close>

definition tier_rate :: "string \<Rightarrow> real \<Rightarrow> real \<Rightarrow> real \<Rightarrow> real" where
  "tier_rate t very_high high moderate =
     (if t \<in> set [''Mayotte'', ''Guyane''] then very_high
      else if t \<in> set [La_Reunion, Polynesie_francaise] then high
      else moderate)"

definition linear_growth :: "real \<Rightarrow> nat \<Rightarrow> real" where
  "linear_growth rate year_index = fadd 1 (fmul (fl rate) (py_float (int year_index)))"

definition gated_factor :: "real \<Rightarrow> int \<Rightarrow> real" where
  "gated_factor rate year =
     (if year < 2010 then 1 else fadd 1 (fmul (fl rate) (py_float (year - 2010))))"

definition tag_multiplier :: "string \<Rightarrow> real \<Rightarrow> string list \<Rightarrow> real" where
  "tag_multiplier tag boost tags = (if tag \<in> set tags then fl boost else 1)"

section \<open>The configuration resolver\<close>

lemmas name_defs =
  La_Reunion_def Saint_Barthelemy_def Polynesie_francaise_def Nouvelle_Caledonie_def

lemma configs_keys: "map fst configs = territoires @ [''default'']"
  by (simp add: configs_def territoires_def)

lemma distinct_configs: "distinct (map fst configs)"
  by (simp add: configs_def name_defs)

lemma map_of_default:
  "map_of configs ''default'' =
     Some \<lparr>allocataires_base = 50000, budget_base = 200,
           specificites = [''prestations_familiales'', ''logement'', ''solidarite'']\<rparr>"
  by (simp add: configs_def name_defs)

lemma resolver_in_table:
  "(name, c) \<in> set configs \<Longrightarrow> get_territoire_config name = Inr c"
  using distinct_configs by (simp add: get_territoire_config_def map_of_default)

lemma resolver_fallback:
  assumes "name \<notin> set territoires"
  shows "get_territoire_config name =
           Inr \<lparr>allocataires_base = 50000, budget_base = 200,
                specificites = [''prestations_familiales'', ''logement'', ''solidarite'']\<rparr>"
proof (cases "name = ''default''")
  case True
  then show ?thesis
    by (simp add: get_territoire_config_def map_of_default)
next
  case False
  with assms have "name \<notin> set (map fst configs)"
    by (simp add: configs_keys)
  then have "map_of configs name = None"
    by (simp add: map_of_eq_None_iff)
  then show ?thesis
    by (simp add: get_territoire_config_def map_of_default)
qed

text \<open>
  C2. For every name of the preset table the resolver returns the bundle stored for that
  name; the table's keys are the eleven territories and \<open>default\<close>; for every other
  string the resolver returns the default bundle (50000, 200, prestations_familiales,
  logement, solidarite). It never fails: the result is always \<open>Inr\<close>. Being a function of
  the name alone, it has no side effect.
\<close>

theorem get_territoire_config_correct:
  "((name, c) \<in> set configs \<longrightarrow> get_territoire_config name = Inr c) \<and>
   (name \<notin> set territoires \<longrightarrow>
      get_territoire_config name =
        Inr \<lparr>allocataires_base = 50000, budget_base = 200,
             specificites = [''prestations_familiales'', ''logement'', ''solidarite'']\<rparr>) \<and>
   (\<exists>c'. get_territoire_config name = Inr c') \<and>
   length territoires = 11 \<and> distinct territoires \<and>
   map fst configs = territoires @ [''default'']"
proof -
  have total: "\<exists>c'. get_territoire_config name = Inr c'"
    by (simp add: get_territoire_config_def map_of_default)
  have shape: "length territoires = 11 \<and> distinct territoires"
    by (simp add: territoires_def name_defs)
  from resolver_in_table resolver_fallback total shape configs_keys show ?thesis
    by blast
qed

theorem get_territoire_config_witness:
  "(''Mayotte'',
      \<lparr>allocataires_base = 65000, budget_base = 280,
       specificites = [''jeunesse'', ''familles_nombreuses'', ''precarite_elevee'']\<rparr>)
     \<in> set configs \<and>
   get_territoire_config ''Mayotte'' =
     Inr \<lparr>allocataires_base = 65000, budget_base = 280,
          specificites = [''jeunesse'', ''familles_nombreuses'', ''precarite_elevee'']\<rparr> \<and>
   ''Paris'' \<notin> set territoires \<and>
   get_territoire_config ''Paris'' =
     Inr \<lparr>allocataires_base = 50000, budget_base = 200,
          specificites = [''prestations_familiales'', ''logement'', ''solidarite'']\<rparr>"
proof -
  have m: "(''Mayotte'',
      \<lparr>allocataires_base = 65000, budget_base = 280,
       specificites = [''jeunesse'', ''familles_nombreuses'', ''precarite_elevee'']\<rparr>)
     \<in> set configs"
    by (simp add: configs_def)
  have p: "''Paris'' \<notin> set territoires"
    by (simp add: territoires_def name_defs)
  from m p
    get_territoire_config_correct [of "''Mayotte''"
      "\<lparr>allocataires_base = 65000, budget_base = 280,
        specificites = [''jeunesse'', ''familles_nombreuses'', ''precarite_elevee'']\<rparr>"]
    get_territoire_config_correct [of "''Paris''"]
  show ?thesis
    by blast
qed

section \<open>The era adjustment pass\<close>

text \<open>
  One visit of a row does what the table lists, for every year: each target column is
  multiplied by the listed multipliers whose years match, in the order of the table, and
  nothing else changes.
\<close>

lemma trend_row_listed: "trend_row r = adjusted_as_listed r"
proof -
  consider "Annee r < 2002" | "2002 \<le> Annee r \<and> Annee r \<le> 2005" | "2006 \<le> Annee r \<and> Annee r \<le> 2007"
    | "2008 \<le> Annee r \<and> Annee r \<le> 2009" | "Annee r = 2010" | "2011 \<le> Annee r \<and> Annee r \<le> 2015"
    | "Annee r = 2016" | "Annee r = 2017" | "2018 \<le> Annee r \<and> Annee r \<le> 2019" | "Annee r = 2020"
    | "Annee r = 2021" | "2022 \<le> Annee r"
    by linarith
  then show ?thesis
    by cases (simp_all add: trend_row_def adjusted_as_listed_def listed_multipliers_def
        era_table_def multiplied_by_def Let_def)
qed

lemma Annee_adjusted [simp]: "Annee (adjusted_as_listed r) = Annee r"
  by (simp add: adjusted_as_listed_def)

lemma column_of_adjusted:
  "column_of f (adjusted_as_listed r) = multiplied_by (column_of f r) (listed_multipliers f (Annee r))"
  by (cases f) (simp_all add: adjusted_as_listed_def)

lemma multiplied_by_append: "multiplied_by x (ms @ ns) = multiplied_by (multiplied_by x ms) ns"
  by (simp add: multiplied_by_def)

text \<open>
  C1. For every year from 2002 to 2025 the pass multiplies exactly the listed fields by the
  listed multipliers whose years match: the row after the pass is the row with each of the
  eight target columns multiplied by its matching multipliers, every other column and the
  year unchanged. In particular the adjustments of 2011 to 2015 apply in each of those
  years although their branch is an \<^verbatim>\<open>elif\<close>, and those of 2008 to 2009 and of 2020
  compose with the other matching branches (solidarity income in 2008 and 2009 is
  multiplied by 1.25 and then by 1.15).
\<close>

theorem add_caf_trends_as_listed:
  assumes "i < length df" and "2002 \<le> Annee (df ! i)" and "Annee (df ! i) \<le> 2025"
  shows "length (add_caf_trends df) = length df \<and>
         add_caf_trends df ! i = adjusted_as_listed (df ! i) \<and>
         (\<forall>f. column_of f (add_caf_trends df ! i) =
                multiplied_by (column_of f (df ! i)) (listed_multipliers f (Annee (df ! i)))) \<and>
         (2011 \<le> Annee (df ! i) \<and> Annee (df ! i) \<le> 2015 \<longrightarrow>
            Contributions_Etat (add_caf_trends df ! i) = fmul (Contributions_Etat (df ! i)) (fl 1.12) \<and>
            Allocations_Familiales (add_caf_trends df ! i) =
              fmul (Allocations_Familiales (df ! i)) (fl 1.08)) \<and>
         (2008 \<le> Annee (df ! i) \<and> Annee (df ! i) \<le> 2009 \<longrightarrow>
            Cotisations_Sociales (add_caf_trends df ! i) =
              fmul (Cotisations_Sociales (df ! i)) (fl 0.92) \<and>
            RSA (add_caf_trends df ! i) = fmul (fmul (RSA (df ! i)) (fl 1.25)) (fl 1.15) \<and>
            Prestations_Solidarite (add_caf_trends df ! i) =
              fmul (Prestations_Solidarite (df ! i)) (fl 1.3)) \<and>
         (Annee (df ! i) = 2020 \<longrightarrow>
            Cotisations_Sociales (add_caf_trends df ! i) =
              fmul (Cotisations_Sociales (df ! i)) (fl 0.85) \<and>
            Contributions_Etat (add_caf_trends df ! i) = fmul (Contributions_Etat (df ! i)) (fl 1.25) \<and>
            RSA (add_caf_trends df ! i) = fmul (RSA (df ! i)) (fl 1.35))"
proof -
  have row: "add_caf_trends df ! i = adjusted_as_listed (df ! i)"
    using assms(1) by (simp add: add_caf_trends_def trend_row_listed)
  have cols: "column_of f (add_caf_trends df ! i) =
        multiplied_by (column_of f (df ! i)) (listed_multipliers f (Annee (df ! i)))" for f
    by (simp add: row column_of_adjusted)
  have a: "Contributions_Etat (add_caf_trends df ! i) = fmul (Contributions_Etat (df ! i)) (fl 1.12) \<and>
      Allocations_Familiales (add_caf_trends df ! i) = fmul (Allocations_Familiales (df ! i)) (fl 1.08)"
    if "2011 \<le> Annee (df ! i) \<and> Annee (df ! i) \<le> 2015"
    using that cols [of State_contributions] cols [of Family_allowance]
    by (simp add: listed_multipliers_def era_table_def multiplied_by_def)
  have b: "Cotisations_Sociales (add_caf_trends df ! i) = fmul (Cotisations_Sociales (df ! i)) (fl 0.92) \<and>
      RSA (add_caf_trends df ! i) = fmul (fmul (RSA (df ! i)) (fl 1.25)) (fl 1.15) \<and>
      Prestations_Solidarite (add_caf_trends df ! i) = fmul (Prestations_Solidarite (df ! i)) (fl 1.3)"
    if "2008 \<le> Annee (df ! i) \<and> Annee (df ! i) \<le> 2009"
    using that cols [of Social_contributions] cols [of Solidarity_income] cols [of Solidarity_benefits]
    by (simp add: listed_multipliers_def era_table_def multiplied_by_def)
  have c: "Cotisations_Sociales (add_caf_trends df ! i) = fmul (Cotisations_Sociales (df ! i)) (fl 0.85) \<and>
      Contributions_Etat (add_caf_trends df ! i) = fmul (Contributions_Etat (df ! i)) (fl 1.25) \<and>
      RSA (add_caf_trends df ! i) = fmul (RSA (df ! i)) (fl 1.35)"
    if "Annee (df ! i) = 2020"
    using that cols [of Social_contributions] cols [of State_contributions] cols [of Solidarity_income]
    by (simp add: listed_multipliers_def era_table_def multiplied_by_def)
  have len: "length (add_caf_trends df) = length df"
    by (simp add: add_caf_trends_def)
  from len row cols a b c show ?thesis
    by blast
qed

theorem add_caf_trends_as_listed_witness:
  "0 < length [flat_row 2008 100, flat_row 2013 100] \<and>
   2002 \<le> Annee ([flat_row 2008 100, flat_row 2013 100] ! 0) \<and>
   Annee ([flat_row 2008 100, flat_row 2013 100] ! 0) \<le> 2025 \<and>
   RSA (add_caf_trends [flat_row 2008 100, flat_row 2013 100] ! 0) = 143.75 \<and>
   Contributions_Etat (add_caf_trends [flat_row 2008 100, flat_row 2013 100] ! 0) = 100"
proof -
  have h: "0 < length [flat_row 2008 100, flat_row 2013 100]"
    "2002 \<le> Annee ([flat_row 2008 100, flat_row 2013 100] ! 0)"
    "Annee ([flat_row 2008 100, flat_row 2013 100] ! 0) \<le> 2025"
    by (simp_all add: flat_row_def)
  have v: "fmul (fmul 100 (fl 1.25)) (fl 1.15) = 143.75"
    by code_simp
  from add_caf_trends_as_listed [OF h] h v show ?thesis
    by (simp add: flat_row_def adjusted_as_listed_def listed_multipliers_def era_table_def
        multiplied_by_def)
qed

text \<open>
  C4, as stated, fails on a cell that two rules match. Solidarity income in 2008 is matched
  by the rule of 2006 to 2010 with multiplier 1.25, yet one pass takes 100 to 143.75 (the
  rule of 2008 to 2009 multiplies it by 1.15 as well), not to 125.
\<close>

theorem single_rule_counterexample:
  "2006 \<le> Annee (flat_row 2008 100) \<and> Annee (flat_row 2008 100) \<le> 2010 \<and>
   RSA (flat_row 2008 100) = 100 \<and>
   fmul 100 (fl 1.25) = 125 \<and>
   RSA (hd (add_caf_trends [flat_row 2008 100])) = 143.75 \<and>
   RSA (hd (add_caf_trends [flat_row 2008 100])) \<noteq> fmul (RSA (flat_row 2008 100)) (fl 1.25)"
proof -
  have v: "fmul (fmul 100 (fl 1.25)) (fl 1.15) = 143.75" "fmul 100 (fl 1.25) = 125"
    by code_simp+
  then show ?thesis
    by (simp add: add_caf_trends_def trend_row_def flat_row_def Let_def)
qed

text \<open>
  C4, amended. The pass is not idempotent. For any table and any cell, one pass multiplies
  the cell's value in turn by the multipliers of all the rules that match the cell, and a
  second pass multiplies the result by the same multipliers once more. For a cell matched
  by a single rule with multiplier \<open>m\<close> one pass gives the value times \<open>m\<close> and two passes
  give that product times \<open>m\<close> again (each product rounded as a float product).
\<close>

theorem add_caf_trends_twice:
  assumes "i < length df"
  shows "column_of f (add_caf_trends df ! i) =
           multiplied_by (column_of f (df ! i)) (listed_multipliers f (Annee (df ! i))) \<and>
         column_of f (add_caf_trends (add_caf_trends df) ! i) =
           multiplied_by (column_of f (df ! i))
             (listed_multipliers f (Annee (df ! i)) @ listed_multipliers f (Annee (df ! i))) \<and>
         (listed_multipliers f (Annee (df ! i)) = [m] \<longrightarrow>
            column_of f (add_caf_trends df ! i) = fmul (column_of f (df ! i)) m \<and>
            column_of f (add_caf_trends (add_caf_trends df) ! i) =
              fmul (fmul (column_of f (df ! i)) m) m)"
proof -
  have once: "add_caf_trends df ! i = adjusted_as_listed (df ! i)"
    using assms by (simp add: add_caf_trends_def trend_row_listed)
  have twice: "add_caf_trends (add_caf_trends df) ! i = adjusted_as_listed (adjusted_as_listed (df ! i))"
    using assms by (simp add: add_caf_trends_def trend_row_listed)
  have a: "column_of f (add_caf_trends df ! i) =
           multiplied_by (column_of f (df ! i)) (listed_multipliers f (Annee (df ! i)))"
    by (simp add: once column_of_adjusted)
  have b: "column_of f (add_caf_trends (add_caf_trends df) ! i) =
           multiplied_by (column_of f (df ! i))
             (listed_multipliers f (Annee (df ! i)) @ listed_multipliers f (Annee (df ! i)))"
    by (simp add: twice column_of_adjusted multiplied_by_append)
  from a b show ?thesis
    by (auto simp: multiplied_by_def)
qed

theorem add_caf_trends_twice_witness:
  "0 < length [flat_row 2003 100] \<and>
   listed_multipliers State_contributions (Annee ([flat_row 2003 100] ! 0)) = [fl 1.1] \<and>
   Contributions_Etat (add_caf_trends [flat_row 2003 100] ! 0) = 110 + 1 / 2 ^ 46 \<and>
   Contributions_Etat (add_caf_trends (add_caf_trends [flat_row 2003 100]) ! 0) = 121 + 2 / 2 ^ 46 \<and>
   add_caf_trends (add_caf_trends [flat_row 2003 100]) \<noteq> add_caf_trends [flat_row 2003 100]"
proof -
  have h: "0 < length [flat_row 2003 100]"
    by simp
  have ms: "listed_multipliers State_contributions (Annee ([flat_row 2003 100] ! 0)) = [fl 1.1]"
    by (simp add: listed_multipliers_def era_table_def flat_row_def)
  have v: "fmul 100 (fl 1.1) = 110 + 1 / 2 ^ 46" "fmul (fmul 100 (fl 1.1)) (fl 1.1) = 121 + 2 / 2 ^ 46"
    by code_simp+
  have c: "Contributions_Etat ([flat_row 2003 100] ! 0) = 100"
    by (simp add: flat_row_def)
  from add_caf_trends_twice [OF h, of State_contributions "fl 1.1"] ms c
  have both: "Contributions_Etat (add_caf_trends [flat_row 2003 100] ! 0) = fmul 100 (fl 1.1) \<and>
      Contributions_Etat (add_caf_trends (add_caf_trends [flat_row 2003 100]) ! 0) =
        fmul (fmul 100 (fl 1.1)) (fl 1.1)"
    by simp
  have once: "Contributions_Etat (add_caf_trends [flat_row 2003 100] ! 0) = 110 + 1 / 2 ^ 46"
    using both [THEN conjunct1] v(1) by (rule trans)
  have twice: "Contributions_Etat (add_caf_trends (add_caf_trends [flat_row 2003 100]) ! 0) = 121 + 2 / 2 ^ 46"
    using both [THEN conjunct2] v(2) by (rule trans)
  have "add_caf_trends (add_caf_trends [flat_row 2003 100]) ! 0 \<noteq> add_caf_trends [flat_row 2003 100] ! 0"
    using once twice by auto
  then have "add_caf_trends (add_caf_trends [flat_row 2003 100]) \<noteq> add_caf_trends [flat_row 2003 100]"
    by metis
  with h ms once twice show ?thesis
    by blast
qed

section \<open>Rounding is symmetric\<close>

lemma round_half_even_uminus: "round_half_even (- x) = - round_half_even x"
proof (cases "x \<in> \<int>")
  case True
  then obtain n where "x = of_int n" by (auto elim: Ints_cases)
  then show ?thesis by (simp add: round_half_even_def)
next
  case False
  then have ne: "x \<noteq> of_int \<lfloor>x\<rfloor>"
    by (metis Ints_of_int)
  then have f: "\<lfloor>- x\<rfloor> = - \<lfloor>x\<rfloor> - 1"
    by (simp add: floor_minus ceiling_altdef)
  from ne show ?thesis
    unfolding round_half_even_def Let_def f
    by (auto simp: algebra_simps)
qed

lemma fl_uminus: "fl (- x) = - fl x"
  by (simp add: fl_def Let_def round_half_even_uminus)

lemma gated_factor_decrease:
  "gated_factor (- rate) year =
     (if year < 2010 then 1 else fsub 1 (fmul (fl rate) (py_float (year - 2010))))"
  by (simp add: gated_factor_def fadd_def fsub_def fmul_def fl_uminus)

section \<open>The loops of the generator\<close>

text \<open>
  A loop appends one value per date. When its body draws once and multiplies a value that
  does not depend on the generator state by the draw, the value of iteration \<open>k\<close> is that
  product with the \<open>k\<close>-th draw, and the loop leaves the state after as many draws as dates.
\<close>

lemma length_for_enumerate: "length (fst (for_enumerate body i ds g)) = length ds"
  by (induction ds arbitrary: i g) (auto simp: split_def Let_def)

lemma snd_for_enumerate_noisy:
  "snd (for_enumerate (\<lambda>i d g. (fmul (f i d) (fst (draw g)), snd (draw g))) i0 ds g) =
     after_draws draw (length ds) g"
  by (induction ds arbitrary: i0 g) (simp_all add: split_def Let_def)

lemma nth_for_enumerate_noisy:
  "k < length ds \<Longrightarrow>
   fst (for_enumerate (\<lambda>i d g. (fmul (f i d) (fst (draw g)), snd (draw g))) i0 ds g) ! k =
     fmul (f (i0 + k) (ds ! k)) (noise_at draw k g)"
proof (induction ds arbitrary: i0 g k)
  case Nil
  then show ?case by simp
next
  case (Cons d ds)
  show ?case
  proof (cases k)
    case 0
    then show ?thesis by (simp add: split_def Let_def noise_at_def)
  next
    case (Suc k')
    with Cons.prems have "k' < length ds" by simp
    from Cons.IH [OF this, of "Suc i0" "snd (draw g)"] Suc
    show ?thesis by (simp add: split_def Let_def noise_at_def)
  qed
qed

lemma snd_for_enumerate_pure:
  "snd (for_enumerate (\<lambda>i d g. (v i d, g)) i0 ds g) = g"
  by (induction ds arbitrary: i0) (simp_all add: split_def Let_def)

lemma nth_for_enumerate_pure:
  "k < length ds \<Longrightarrow> fst (for_enumerate (\<lambda>i d g. (v i d, g)) i0 ds g) ! k = v (i0 + k) (ds ! k)"
proof (induction ds arbitrary: i0 k)
  case Nil
  then show ?case by simp
next
  case (Cons d ds)
  show ?case
  proof (cases k)
    case 0
    then show ?thesis by (simp add: split_def Let_def)
  next
    case (Suc k')
    with Cons.prems have "k' < length ds" by simp
    from Cons.IH [OF this, of "Suc i0"] Suc
    show ?thesis by (simp add: split_def Let_def)
  qed
qed

lemmas loop_simps =
  Let_def split_def nth_for_enumerate_noisy snd_for_enumerate_noisy
  nth_for_enumerate_pure snd_for_enumerate_pure

lemmas formula_defs = tier_rate_def linear_growth_def gated_factor_def tag_multiplier_def

section \<open>The series, value by value\<close>

text \<open>
  Each series in the specification's terms: base value, growth factor, tag multiplier and
  noise, multiplied from left to right.
\<close>

lemma nth_simulate_allocataires:
  "k < length dates \<Longrightarrow>
   fst (simulate_allocataires normal self dates g) ! k =
     fmul (py_float (allocataires_base (config self)))
          (linear_growth (tier_rate (territoire self) 0.025 0.018 0.012) k)"
  by (simp add: simulate_allocataires_def loop_simps formula_defs)

lemma snd_simulate_allocataires: "snd (simulate_allocataires normal self dates g) = g"
  by (simp add: simulate_allocataires_def loop_simps)

lemma length_simulate_allocataires:
  "length (fst (simulate_allocataires normal self dates g)) = length dates"
  by (simp add: simulate_allocataires_def Let_def length_for_enumerate)

lemma nth_simulate_prestations:
  "k < length dates \<Longrightarrow>
   fst (simulate_prestations normal self dates g) ! k =
     fmul (fmul (fmul (py_float (budget_base (config self))) (fl 0.85)) (linear_growth (tier_rate (territoire self) 0.028 0.022 0.018) k))
          (noise_at (normal 1 (fl 0.07)) k g)"
  by (simp add: simulate_prestations_def loop_simps formula_defs)

lemma snd_simulate_prestations:
  "snd (simulate_prestations normal self dates g) = after_draws (normal 1 (fl 0.07)) (length dates) g"
  by (simp add: simulate_prestations_def loop_simps)

lemma length_simulate_prestations:
  "length (fst (simulate_prestations normal self dates g)) = length dates"
  by (simp add: simulate_prestations_def Let_def length_for_enumerate)

lemma nth_simulate_total_revenue:
  "k < length dates \<Longrightarrow>
   fst (simulate_total_revenue normal self dates g) ! k =
     fmul (fmul (py_float (budget_base (config self))) (linear_growth (tier_rate (territoire self) 0.042 0.035 0.028) k))
          (noise_at (normal 1 (fl 0.08)) k g)"
  by (simp add: simulate_total_revenue_def loop_simps formula_defs)

lemma snd_simulate_total_revenue:
  "snd (simulate_total_revenue normal self dates g) = after_draws (normal 1 (fl 0.08)) (length dates) g"
  by (simp add: simulate_total_revenue_def loop_simps)

lemma length_simulate_total_revenue:
  "length (fst (simulate_total_revenue normal self dates g)) = length dates"
  by (simp add: simulate_total_revenue_def Let_def length_for_enumerate)

lemma nth_simulate_social_contributions:
  "k < length dates \<Longrightarrow>
   fst (simulate_social_contributions normal self dates g) ! k =
     fmul (fmul (fmul (py_float (budget_base (config self))) (fl 0.65)) (linear_growth (tier_rate (territoire self) 0.035 0.028 0.022) k))
          (noise_at (normal 1 (fl 0.06)) k g)"
  by (simp add: simulate_social_contributions_def loop_simps formula_defs)

lemma snd_simulate_social_contributions:
  "snd (simulate_social_contributions normal self dates g) = after_draws (normal 1 (fl 0.06)) (length dates) g"
  by (simp add: simulate_social_contributions_def loop_simps)

lemma length_simulate_social_contributions:
  "length (fst (simulate_social_contributions normal self dates g)) = length dates"
  by (simp add: simulate_social_contributions_def Let_def length_for_enumerate)

lemma nth_simulate_state_contributions:
  "k < length dates \<Longrightarrow>
   fst (simulate_state_contributions normal self dates g) ! k =
     fmul (fmul (fmul (py_float (budget_base (config self))) (fl 0.30)) (gated_factor (tier_rate (territoire self) 0.022 0.018 0.015) (dates ! k)))
          (noise_at (normal 1 (fl 0.05)) k g)"
  by (simp add: simulate_state_contributions_def loop_simps formula_defs)

lemma snd_simulate_state_contributions:
  "snd (simulate_state_contributions normal self dates g) = after_draws (normal 1 (fl 0.05)) (length dates) g"
  by (simp add: simulate_state_contributions_def loop_simps)

lemma length_simulate_state_contributions:
  "length (fst (simulate_state_contributions normal self dates g)) = length dates"
  by (simp add: simulate_state_contributions_def Let_def length_for_enumerate)

lemma nth_simulate_other_revenue:
  "k < length dates \<Longrightarrow>
   fst (simulate_other_revenue normal self dates g) ! k =
     fmul (fmul (fmul (py_float (budget_base (config self))) (fl 0.05)) (linear_growth 0.025 k))
          (noise_at (normal 1 (fl 0.10)) k g)"
  by (simp add: simulate_other_revenue_def loop_simps formula_defs)

lemma snd_simulate_other_revenue:
  "snd (simulate_other_revenue normal self dates g) = after_draws (normal 1 (fl 0.10)) (length dates) g"
  by (simp add: simulate_other_revenue_def loop_simps)

lemma length_simulate_other_revenue:
  "length (fst (simulate_other_revenue normal self dates g)) = length dates"
  by (simp add: simulate_other_revenue_def Let_def length_for_enumerate)

lemma nth_simulate_total_expenses:
  "k < length dates \<Longrightarrow>
   fst (simulate_total_expenses normal self dates g) ! k =
     fmul (fmul (fmul (py_float (budget_base (config self))) (fl 0.95)) (linear_growth (tier_rate (territoire self) 0.038 0.032 0.026) k))
          (noise_at (normal 1 (fl 0.07)) k g)"
  by (simp add: simulate_total_expenses_def loop_simps formula_defs)

lemma snd_simulate_total_expenses:
  "snd (simulate_total_expenses normal self dates g) = after_draws (normal 1 (fl 0.07)) (length dates) g"
  by (simp add: simulate_total_expenses_def loop_simps)

lemma length_simulate_total_expenses:
  "length (fst (simulate_total_expenses normal self dates g)) = length dates"
  by (simp add: simulate_total_expenses_def Let_def length_for_enumerate)

lemma nth_simulate_family_benefits:
  "k < length dates \<Longrightarrow>
   fst (simulate_family_benefits normal self dates g) ! k =
     fmul (fmul (fmul (fmul (py_float (budget_base (config self))) (fl 0.45)) (linear_growth (tier_rate (territoire self) 0.032 0.028 0.022) k)) (tag_multiplier ''familles_nombreuses'' 1.4 (specificites (config self))))
          (noise_at (normal 1 (fl 0.06)) k g)"
  by (simp add: simulate_family_benefits_def loop_simps formula_defs)

lemma snd_simulate_family_benefits:
  "snd (simulate_family_benefits normal self dates g) = after_draws (normal 1 (fl 0.06)) (length dates) g"
  by (simp add: simulate_family_benefits_def loop_simps)

lemma length_simulate_family_benefits:
  "length (fst (simulate_family_benefits normal self dates g)) = length dates"
  by (simp add: simulate_family_benefits_def Let_def length_for_enumerate)

lemma nth_simulate_housing_benefits:
  "k < length dates \<Longrightarrow>
   fst (simulate_housing_benefits normal self dates g) ! k =
     fmul (fmul (fmul (py_float (budget_base (config self))) (fl 0.25)) (linear_growth (tier_rate (territoire self) 0.035 0.03 0.024) k))
          (noise_at (normal 1 (fl 0.08)) k g)"
  by (simp add: simulate_housing_benefits_def loop_simps formula_defs)

lemma snd_simulate_housing_benefits:
  "snd (simulate_housing_benefits normal self dates g) = after_draws (normal 1 (fl 0.08)) (length dates) g"
  by (simp add: simulate_housing_benefits_def loop_simps)

lemma length_simulate_housing_benefits:
  "length (fst (simulate_housing_benefits normal self dates g)) = length dates"
  by (simp add: simulate_housing_benefits_def Let_def length_for_enumerate)

lemma nth_simulate_solidarity_benefits:
  "k < length dates \<Longrightarrow>
   fst (simulate_solidarity_benefits normal self dates g) ! k =
     fmul (fmul (fmul (fmul (py_float (budget_base (config self))) (fl 0.20)) (linear_growth (tier_rate (territoire self) 0.04 0.035 0.028) k)) (tag_multiplier ''precarite'' 1.5 (specificites (config self))))
          (noise_at (normal 1 (fl 0.09)) k g)"
  by (simp add: simulate_solidarity_benefits_def loop_simps formula_defs)

lemma snd_simulate_solidarity_benefits:
  "snd (simulate_solidarity_benefits normal self dates g) = after_draws (normal 1 (fl 0.09)) (length dates) g"
  by (simp add: simulate_solidarity_benefits_def loop_simps)

lemma length_simulate_solidarity_benefits:
  "length (fst (simulate_solidarity_benefits normal self dates g)) = length dates"
  by (simp add: simulate_solidarity_benefits_def Let_def length_for_enumerate)

lemma nth_simulate_management_costs:
  "k < length dates \<Longrightarrow>
   fst (simulate_management_costs normal self dates g) ! k =
     fmul (fmul (fmul (py_float (budget_base (config self))) (fl 0.05)) (linear_growth 0.02 k))
          (noise_at (normal 1 (fl 0.04)) k g)"
  by (simp add: simulate_management_costs_def loop_simps formula_defs)

lemma snd_simulate_management_costs:
  "snd (simulate_management_costs normal self dates g) = after_draws (normal 1 (fl 0.04)) (length dates) g"
  by (simp add: simulate_management_costs_def loop_simps)

lemma length_simulate_management_costs:
  "length (fst (simulate_management_costs normal self dates g)) = length dates"
  by (simp add: simulate_management_costs_def Let_def length_for_enumerate)

lemma nth_simulate_coverage_rate:
  "k < length dates \<Longrightarrow>
   fst (simulate_coverage_rate normal self dates g) ! k =
     fmul (fmul (fl (tier_rate (territoire self) 0.85 0.88 0.92)) (gated_factor 0.005 (dates ! k)))
          (noise_at (normal 1 (fl 0.03)) k g)"
  by (simp add: simulate_coverage_rate_def loop_simps formula_defs)

lemma snd_simulate_coverage_rate:
  "snd (simulate_coverage_rate normal self dates g) = after_draws (normal 1 (fl 0.03)) (length dates) g"
  by (simp add: simulate_coverage_rate_def loop_simps)

lemma length_simulate_coverage_rate:
  "length (fst (simulate_coverage_rate normal self dates g)) = length dates"
  by (simp add: simulate_coverage_rate_def Let_def length_for_enumerate)

lemma nth_simulate_management_ratio:
  "k < length dates \<Longrightarrow>
   fst (simulate_management_ratio normal self dates g) ! k =
     fmul (fmul (if territoire self \<in> set [''Saint-Pierre-et-Miquelon'', ''Wallis-et-Futuna''] then fl 0.075 else if territoire self \<in> set [''Mayotte'', ''Guyane''] then fl 0.065 else fl 0.055) (gated_factor (- 0.003) (dates ! k)))
          (noise_at (normal 1 (fl 0.02)) k g)"
  by (simp add: simulate_management_ratio_def loop_simps gated_factor_decrease)

lemma snd_simulate_management_ratio:
  "snd (simulate_management_ratio normal self dates g) = after_draws (normal 1 (fl 0.02)) (length dates) g"
  by (simp add: simulate_management_ratio_def loop_simps)

lemma length_simulate_management_ratio:
  "length (fst (simulate_management_ratio normal self dates g)) = length dates"
  by (simp add: simulate_management_ratio_def Let_def length_for_enumerate)

lemma nth_simulate_account_balance:
  "k < length dates \<Longrightarrow>
   fst (simulate_account_balance normal self dates g) ! k =
     fmul (fmul (fmul (py_float (budget_base (config self))) (fl 0.03)) (gated_factor 0.01 (dates ! k)))
          (noise_at (normal 1 (fl 0.15)) k g)"
  by (simp add: simulate_account_balance_def loop_simps formula_defs)

lemma snd_simulate_account_balance:
  "snd (simulate_account_balance normal self dates g) = after_draws (normal 1 (fl 0.15)) (length dates) g"
  by (simp add: simulate_account_balance_def loop_simps)

lemma length_simulate_account_balance:
  "length (fst (simulate_account_balance normal self dates g)) = length dates"
  by (simp add: simulate_account_balance_def Let_def length_for_enumerate)

lemma nth_simulate_family_allocations:
  "k < length dates \<Longrightarrow>
   fst (simulate_family_allocations normal self dates g) ! k =
     fmul (fmul (fmul (fmul (py_float (budget_base (config self))) (fl 0.25)) (linear_growth (tier_rate (territoire self) 0.03 0.025 0.02) k)) (tag_multiplier ''familles_nombreuses'' 1.4 (specificites (config self))))
          (noise_at (normal 1 (fl 0.06)) k g)"
  by (simp add: simulate_family_allocations_def loop_simps formula_defs)

lemma snd_simulate_family_allocations:
  "snd (simulate_family_allocations normal self dates g) = after_draws (normal 1 (fl 0.06)) (length dates) g"
  by (simp add: simulate_family_allocations_def loop_simps)

lemma length_simulate_family_allocations:
  "length (fst (simulate_family_allocations normal self dates g)) = length dates"
  by (simp add: simulate_family_allocations_def Let_def length_for_enumerate)

lemma nth_simulate_ars:
  "k < length dates \<Longrightarrow>
   fst (simulate_ars normal self dates g) ! k =
     fmul (fmul (fmul (fmul (py_float (budget_base (config self))) (fl 0.08)) (linear_growth (tier_rate (territoire self) 0.032 0.028 0.022) k)) (tag_multiplier ''jeunesse'' 1.3 (specificites (config self))))
          (noise_at (normal 1 (fl 0.07)) k g)"
  by (simp add: simulate_ars_def loop_simps formula_defs)

lemma snd_simulate_ars:
  "snd (simulate_ars normal self dates g) = after_draws (normal 1 (fl 0.07)) (length dates) g"
  by (simp add: simulate_ars_def loop_simps)

lemma length_simulate_ars:
  "length (fst (simulate_ars normal self dates g)) = length dates"
  by (simp add: simulate_ars_def Let_def length_for_enumerate)

lemma nth_simulate_apl:
  "k < length dates \<Longrightarrow>
   fst (simulate_apl normal self dates g) ! k =
     fmul (fmul (fmul (py_float (budget_base (config self))) (fl 0.20)) (linear_growth (tier_rate (territoire self) 0.036 0.032 0.026) k))
          (noise_at (normal 1 (fl 0.08)) k g)"
  by (simp add: simulate_apl_def loop_simps formula_defs)

lemma snd_simulate_apl:
  "snd (simulate_apl normal self dates g) = after_draws (normal 1 (fl 0.08)) (length dates) g"
  by (simp add: simulate_apl_def loop_simps)

lemma length_simulate_apl:
  "length (fst (simulate_apl normal self dates g)) = length dates"
  by (simp add: simulate_apl_def Let_def length_for_enumerate)

lemma nth_simulate_rsa:
  "k < length dates \<Longrightarrow>
   fst (simulate_rsa normal self dates g) ! k =
     fmul (fmul (fmul (fmul (py_float (budget_base (config self))) (fl 0.15)) (linear_growth (tier_rate (territoire self) 0.042 0.038 0.03) k)) (tag_multiplier ''precarite'' 1.6 (specificites (config self))))
          (noise_at (normal 1 (fl 0.09)) k g)"
  by (simp add: simulate_rsa_def loop_simps formula_defs)

lemma snd_simulate_rsa:
  "snd (simulate_rsa normal self dates g) = after_draws (normal 1 (fl 0.09)) (length dates) g"
  by (simp add: simulate_rsa_def loop_simps)

lemma length_simulate_rsa:
  "length (fst (simulate_rsa normal self dates g)) = length dates"
  by (simp add: simulate_rsa_def Let_def length_for_enumerate)

lemma nth_simulate_birth_grant:
  "k < length dates \<Longrightarrow>
   fst (simulate_birth_grant normal self dates g) ! k =
     fmul (fmul (fmul (fmul (py_float (budget_base (config self))) (fl 0.04)) (linear_growth (tier_rate (territoire self) 0.026 0.022 0.018) k)) (tag_multiplier ''jeunesse'' 1.5 (specificites (config self))))
          (noise_at (normal 1 (fl 0.10)) k g)"
  by (simp add: simulate_birth_grant_def loop_simps formula_defs)

lemma snd_simulate_birth_grant:
  "snd (simulate_birth_grant normal self dates g) = after_draws (normal 1 (fl 0.10)) (length dates) g"
  by (simp add: simulate_birth_grant_def loop_simps)

lemma length_simulate_birth_grant:
  "length (fst (simulate_birth_grant normal self dates g)) = length dates"
  by (simp add: simulate_birth_grant_def Let_def length_for_enumerate)

lemmas snd_simulate =
  snd_simulate_allocataires
  snd_simulate_prestations
  snd_simulate_total_revenue
  snd_simulate_social_contributions
  snd_simulate_state_contributions
  snd_simulate_other_revenue
  snd_simulate_total_expenses
  snd_simulate_family_benefits
  snd_simulate_housing_benefits
  snd_simulate_solidarity_benefits
  snd_simulate_management_costs
  snd_simulate_coverage_rate
  snd_simulate_management_ratio
  snd_simulate_account_balance
  snd_simulate_family_allocations
  snd_simulate_ars
  snd_simulate_apl
  snd_simulate_rsa
  snd_simulate_birth_grant

lemmas length_simulate =
  length_simulate_allocataires
  length_simulate_prestations
  length_simulate_total_revenue
  length_simulate_social_contributions
  length_simulate_state_contributions
  length_simulate_other_revenue
  length_simulate_total_expenses
  length_simulate_family_benefits
  length_simulate_housing_benefits
  length_simulate_solidarity_benefits
  length_simulate_management_costs
  length_simulate_coverage_rate
  length_simulate_management_ratio
  length_simulate_account_balance
  length_simulate_family_allocations
  length_simulate_ars
  length_simulate_apl
  length_simulate_rsa
  length_simulate_birth_grant

section \<open>Threshold-gated series and tag multipliers\<close>

text \<open>
  C5. For state contributions, coverage rate, management ratio and account balance the
  value of a year is base times factor times noise, where the factor is 1 for every year
  before 2010, whatever the year, and 1 plus the rate times (year - 2010) from 2010 on: a
  kink at 2010, not growth by the index from the first year. The rate of the state
  contributions is 0.022, 0.018 or 0.015 by tier; the rates of the other three are the same
  in every tier: 0.005 for the coverage rate, -0.003 for the management ratio (the factor
  decreases) and 0.01 for the account balance.
\<close>

theorem threshold_gated_series:
  assumes "k < length dates"
  shows "fst (simulate_state_contributions normal self dates g) ! k =
           fmul (fmul (fmul (py_float (budget_base (config self))) (fl 0.30))
                      (gated_factor (tier_rate (territoire self) 0.022 0.018 0.015) (dates ! k)))
                (noise_at (normal 1 (fl 0.05)) k g) \<and>
         fst (simulate_coverage_rate normal self dates g) ! k =
           fmul (fmul (fl (tier_rate (territoire self) 0.85 0.88 0.92))
                      (gated_factor (tier_rate (territoire self) 0.005 0.005 0.005) (dates ! k)))
                (noise_at (normal 1 (fl 0.03)) k g) \<and>
         fst (simulate_management_ratio normal self dates g) ! k =
           fmul (fmul (if territoire self \<in> set [''Saint-Pierre-et-Miquelon'', ''Wallis-et-Futuna'']
                       then fl 0.075
                       else if territoire self \<in> set [''Mayotte'', ''Guyane''] then fl 0.065
                       else fl 0.055)
                      (gated_factor (tier_rate (territoire self) (- 0.003) (- 0.003) (- 0.003))
                         (dates ! k)))
                (noise_at (normal 1 (fl 0.02)) k g) \<and>
         fst (simulate_account_balance normal self dates g) ! k =
           fmul (fmul (fmul (py_float (budget_base (config self))) (fl 0.03))
                      (gated_factor (tier_rate (territoire self) 0.01 0.01 0.01) (dates ! k)))
                (noise_at (normal 1 (fl 0.15)) k g) \<and>
         (dates ! k < 2010 \<longrightarrow> gated_factor rate (dates ! k) = 1) \<and>
         (2010 \<le> dates ! k \<longrightarrow>
            gated_factor rate (dates ! k) = fadd 1 (fmul (fl rate) (py_float (dates ! k - 2010))))"
proof -
  have same: "tier_rate t r r r = r" for t r
    by (simp add: tier_rate_def)
  from assms show ?thesis
    by (simp add: nth_simulate_state_contributions nth_simulate_coverage_rate
        nth_simulate_management_ratio nth_simulate_account_balance same gated_factor_def)
qed

theorem threshold_gated_series_witness:
  "(1::nat) < length [2009, 2012 :: int] \<and> \<not> [2009, 2012 :: int] ! 1 < 2010 \<and>
   2010 \<le> [2009, 2012 :: int] ! 1 \<and>
   gated_factor 0.015 ([2009, 2012] ! 1) = fadd 1 (fmul (fl 0.015) (py_float 2)) \<and>
   fst (simulate_account_balance quiet
          \<lparr>territoire = ''Guyane'', start_year = 2009, end_year = 2012,
           config = \<lparr>allocataires_base = 85000, budget_base = 380,
                     specificites = [''jeunesse'', ''familles_nombreuses'', ''precarite'']\<rparr>\<rparr>
          [2009, 2012] ()) ! 1 =
     fmul (fmul (fmul (py_float 380) (fl 0.03)) (fadd 1 (fmul (fl 0.01) (py_float 2)))) 1"
proof -
  have h: "(1::nat) < length [2009, 2012 :: int]"
    by simp
  have n: "noise_at (quiet 1 sd) j () = 1" for sd j
    by (simp add: noise_at_def quiet_def)
  from threshold_gated_series [OF h, of quiet
      "\<lparr>territoire = ''Guyane'', start_year = 2009, end_year = 2012,
        config = \<lparr>allocataires_base = 85000, budget_base = 380,
                  specificites = [''jeunesse'', ''familles_nombreuses'', ''precarite'']\<rparr>\<rparr>"
      "()" "0.015"]
  show ?thesis
    by (simp add: n gated_factor_def tier_rate_def)
qed

text \<open>
  C6. For every profile the tag multiplier of a series is the boost when the tag is an
  element of the profile's tags and 1.0 otherwise: 1.4 for family benefits and family
  allowance with \<open>familles_nombreuses\<close>, 1.5 for solidarity benefits and 1.6 for solidarity
  income with \<open>precarite\<close>, 1.3 for the back-to-school grant and 1.5 for the birth grant
  with \<open>jeunesse\<close>. The tag must be present literally: Mayotte's \<open>precarite_elevee\<close> is not
  \<open>precarite\<close>.
\<close>

theorem tag_multiplier_series:
  assumes "k < length dates"
  shows "fst (simulate_family_benefits normal self dates g) ! k =
           fmul (fmul (fmul (fmul (py_float (budget_base (config self))) (fl 0.45))
                            (linear_growth (tier_rate (territoire self) 0.032 0.028 0.022) k))
                      (tag_multiplier ''familles_nombreuses'' 1.4 (specificites (config self))))
                (noise_at (normal 1 (fl 0.06)) k g) \<and>
         fst (simulate_family_allocations normal self dates g) ! k =
           fmul (fmul (fmul (fmul (py_float (budget_base (config self))) (fl 0.25))
                            (linear_growth (tier_rate (territoire self) 0.03 0.025 0.02) k))
                      (tag_multiplier ''familles_nombreuses'' 1.4 (specificites (config self))))
                (noise_at (normal 1 (fl 0.06)) k g) \<and>
         fst (simulate_solidarity_benefits normal self dates g) ! k =
           fmul (fmul (fmul (fmul (py_float (budget_base (config self))) (fl 0.20))
                            (linear_growth (tier_rate (territoire self) 0.04 0.035 0.028) k))
                      (tag_multiplier ''precarite'' 1.5 (specificites (config self))))
                (noise_at (normal 1 (fl 0.09)) k g) \<and>
         fst (simulate_rsa normal self dates g) ! k =
           fmul (fmul (fmul (fmul (py_float (budget_base (config self))) (fl 0.15))
                            (linear_growth (tier_rate (territoire self) 0.042 0.038 0.03) k))
                      (tag_multiplier ''precarite'' 1.6 (specificites (config self))))
                (noise_at (normal 1 (fl 0.09)) k g) \<and>
         fst (simulate_ars normal self dates g) ! k =
           fmul (fmul (fmul (fmul (py_float (budget_base (config self))) (fl 0.08))
                            (linear_growth (tier_rate (territoire self) 0.032 0.028 0.022) k))
                      (tag_multiplier ''jeunesse'' 1.3 (specificites (config self))))
                (noise_at (normal 1 (fl 0.07)) k g) \<and>
         fst (simulate_birth_grant normal self dates g) ! k =
           fmul (fmul (fmul (fmul (py_float (budget_base (config self))) (fl 0.04))
                            (linear_growth (tier_rate (territoire self) 0.026 0.022 0.018) k))
                      (tag_multiplier ''jeunesse'' 1.5 (specificites (config self))))
                (noise_at (normal 1 (fl 0.10)) k g) \<and>
         (tag \<in> set (specificites (config self)) \<longrightarrow>
            tag_multiplier tag boost (specificites (config self)) = fl boost) \<and>
         (tag \<notin> set (specificites (config self)) \<longrightarrow>
            tag_multiplier tag boost (specificites (config self)) = 1)"
  using assms
  by (simp add: nth_simulate_family_benefits nth_simulate_family_allocations
      nth_simulate_solidarity_benefits nth_simulate_rsa nth_simulate_ars
      nth_simulate_birth_grant tag_multiplier_def)

theorem tag_multiplier_series_witness:
  "(0::nat) < length [2002, 2003 :: int] \<and>
   ''precarite'' \<notin> set [''jeunesse'', ''familles_nombreuses'', ''precarite_elevee''] \<and>
   ''jeunesse'' \<in> set [''jeunesse'', ''familles_nombreuses'', ''precarite_elevee''] \<and>
   fst (simulate_rsa quiet
      \<lparr>territoire = ''Mayotte'', start_year = 2002, end_year = 2025,
        config = \<lparr>allocataires_base = 65000, budget_base = 280,
                  specificites = [''jeunesse'', ''familles_nombreuses'', ''precarite_elevee'']\<rparr>\<rparr>
      [2002, 2003] ()) ! 0 =
     fmul (fmul (fmul (fmul (py_float 280) (fl 0.15)) (fadd 1 (fmul (fl 0.042) (py_float 0)))) 1) 1 \<and>
   fst (simulate_birth_grant quiet
      \<lparr>territoire = ''Mayotte'', start_year = 2002, end_year = 2025,
        config = \<lparr>allocataires_base = 65000, budget_base = 280,
                  specificites = [''jeunesse'', ''familles_nombreuses'', ''precarite_elevee'']\<rparr>\<rparr>
      [2002, 2003] ()) ! 0 =
     fmul (fmul (fmul (fmul (py_float 280) (fl 0.04)) (fadd 1 (fmul (fl 0.026) (py_float 0))))
       (fl 1.5)) 1"
proof -
  have h: "(0::nat) < length [2002, 2003 :: int]"
    by simp
  have n: "noise_at (quiet 1 sd) j () = 1" for sd j
    by (simp add: noise_at_def quiet_def)
  from tag_multiplier_series [OF h, of quiet
      "\<lparr>territoire = ''Mayotte'', start_year = 2002, end_year = 2025,
        config = \<lparr>allocataires_base = 65000, budget_base = 280,
                  specificites = [''jeunesse'', ''familles_nombreuses'', ''precarite_elevee'']\<rparr>\<rparr>"
      "()" "''precarite''" "1.6"]
    tag_multiplier_series [OF h, of quiet
      "\<lparr>territoire = ''Mayotte'', start_year = 2002, end_year = 2025,
        config = \<lparr>allocataires_base = 65000, budget_base = 280,
                  specificites = [''jeunesse'', ''familles_nombreuses'', ''precarite_elevee'']\<rparr>\<rparr>"
      "()" "''jeunesse''" "1.5"]
  show ?thesis
    by (simp add: n linear_growth_def tier_rate_def)
qed

section \<open>The generated table\<close>

text \<open>
  When the year range is one pandas can represent, the generator returns the table whose
  row \<open>i\<close> is the adjusted raw row \<open>i\<close>, and leaves the state after all the draws.
\<close>

lemma generate_financial_data_Inr:
  assumes "date_range (start_year self) (end_year self) = Inr dates"
  shows "generate_financial_data normal self g0 =
           Inr (add_caf_trends (map (raw_row normal self dates g0) [0..<length dates]),
                after_loops normal (length dates) deviations g0)"
  using assms
  by (simp add: generate_financial_data_def split_def Let_def snd_simulate raw_row_def [abs_def]
      deviations_def)

lemma date_range_Inr:
  "date_range first_year last_year = Inr dates \<Longrightarrow> dates = [first_year..last_year]"
  by (simp add: date_range_def split: if_splits)

lemma trend_row_untouched:
  "Annee (trend_row r) = Annee r"
  "Nombre_Allocataires (trend_row r) = Nombre_Allocataires r"
  "Recettes_Totales (trend_row r) = Recettes_Totales r"
  "Autres_Recettes (trend_row r) = Autres_Recettes r"
  by (simp_all add: trend_row_listed adjusted_as_listed_def)

lemma generate_financial_data_row:
  assumes "generate_financial_data normal self g0 = Inr (df, g')"
  shows "\<exists>dates. date_range (start_year self) (end_year self) = Inr dates \<and>
           length df = length dates \<and>
           (\<forall>i<length dates. df ! i = trend_row (raw_row normal self dates g0 i))"
proof (cases "date_range (start_year self) (end_year self)")
  case (Inl e)
  with assms show ?thesis
    by (simp add: generate_financial_data_def)
next
  case (Inr dates)
  from generate_financial_data_Inr [OF Inr, of normal g0] assms
  have "df = add_caf_trends (map (raw_row normal self dates g0) [0..<length dates])"
    by simp
  with Inr show ?thesis
    by (simp add: add_caf_trends_def)
qed

section \<open>The default profile\<close>

lemma init_fallback:
  assumes "t \<notin> set territoires"
  shows "init t =
           Inr \<lparr>territoire = t, start_year = 2002, end_year = 2025,
                config = \<lparr>allocataires_base = 50000, budget_base = 200,
                  specificites = [''prestations_familiales'', ''logement'', ''solidarite'']\<rparr>\<rparr>"
  by (simp add: init_def resolver_fallback [OF assms])

lemma moderate_tier:
  "t \<notin> set territoires \<Longrightarrow> tier_rate t very_high high moderate = moderate"
  by (auto simp: tier_rate_def territoires_def)

lemma date_range_2002_2025: "date_range 2002 2025 = Inr [2002..2025]"
  by (simp add: date_range_def)

text \<open>
  C3. With the default profile (any name outside the table: baseline population 50000,
  moderate tier) the allocataire series is 50000 in the first year, 2002 (index 0, growth
  factor 1), and 50600 in the second, 2003 (index 1, factor 1 + 0.012), exactly, in float
  arithmetic. The series draws no noise, so this holds for every generator.
\<close>

theorem allocataires_default_profile:
  assumes "t \<notin> set territoires"
  shows "\<exists>self df g'.
           init t = Inr self \<and>
           allocataires_base (config self) = 50000 \<and>
           generate_financial_data normal self g = Inr (df, g') \<and>
           length df = 24 \<and>
           Annee (df ! 0) = 2002 \<and> Nombre_Allocataires (df ! 0) = 50000 \<and>
           Annee (df ! 1) = 2003 \<and> Nombre_Allocataires (df ! 1) = 50600"
proof -
  let ?self = "\<lparr>territoire = t, start_year = 2002, end_year = 2025,
                config = \<lparr>allocataires_base = 50000, budget_base = 200,
                  specificites = [''prestations_familiales'', ''logement'', ''solidarite'']\<rparr>\<rparr>"
  have "\<exists>dates. date_range 2002 2025 = Inr dates \<and> length dates = 24 \<and>
      dates ! 0 = 2002 \<and> dates ! 1 = 2003"
    by (simp add: date_range_def)
  then obtain dates where dr: "date_range 2002 2025 = Inr dates"
    and n: "length dates = 24" and d0: "dates ! 0 = 2002" and d1: "dates ! 1 = 2003"
    by blast
  let ?df = "add_caf_trends (map (raw_row normal ?self dates g) [0..<length dates])"
  from dr have dr': "date_range (start_year ?self) (end_year ?self) = Inr dates"
    by simp
  have gen: "generate_financial_data normal ?self g =
      Inr (?df, after_loops normal (length dates) deviations g)"
    by (rule generate_financial_data_Inr [OF dr'])
  have len: "length ?df = 24"
    by (simp add: add_caf_trends_def n)
  have v0: "fmul (py_float 50000) (fadd 1 (fmul (fl 0.012) (py_float 0))) = 50000"
    by code_simp
  have v1: "fmul (py_float 50000) (fadd 1 (fmul (fl 0.012) (py_float 1))) = 50600"
    by code_simp
  have row: "?df ! i = trend_row (raw_row normal ?self dates g i)" if "i < length dates" for i
    using that by (simp add: add_caf_trends_def)
  have a: "Nombre_Allocataires (?df ! i) =
      fmul (py_float 50000) (fadd 1 (fmul (fl 0.012) (py_float (int i))))"
    and y: "Annee (?df ! i) = dates ! i" if "i < length dates" for i
    using that
    by (simp_all add: row trend_row_untouched raw_row_def nth_simulate_allocataires
        moderate_tier [OF assms] linear_growth_def)
  from a [of 0] a [of 1] y [of 0] y [of 1] v0 v1 n d0 d1
  have vals: "Annee (?df ! 0) = 2002 \<and> Nombre_Allocataires (?df ! 0) = 50000 \<and>
      Annee (?df ! 1) = 2003 \<and> Nombre_Allocataires (?df ! 1) = 50600"
    by simp
  from init_fallback [OF assms] gen len vals show ?thesis
    by (intro exI [of _ ?self] exI [of _ ?df]
        exI [of _ "after_loops normal (length dates) deviations g"]) simp
qed

theorem allocataires_default_profile_witness:
  "''Paris'' \<notin> set territoires \<and>
   (\<exists>self df g'.
      init ''Paris'' = Inr self \<and>
      allocataires_base (config self) = 50000 \<and>
      generate_financial_data quiet self () = Inr (df, g') \<and>
      length df = 24 \<and>
      Annee (df ! 0) = 2002 \<and> Nombre_Allocataires (df ! 0) = 50000 \<and>
      Annee (df ! 1) = 2003 \<and> Nombre_Allocataires (df ! 1) = 50600)"
proof -
  have p: "''Paris'' \<notin> set territoires"
    by (simp add: territoires_def name_defs)
  from p allocataires_default_profile [OF p, of quiet "()"] show ?thesis
    by blast
qed

section \<open>Determinism without noise\<close>

lemmas nth_simulate =
  nth_simulate_allocataires nth_simulate_prestations nth_simulate_total_revenue
  nth_simulate_social_contributions nth_simulate_state_contributions
  nth_simulate_other_revenue nth_simulate_total_expenses nth_simulate_family_benefits
  nth_simulate_housing_benefits nth_simulate_solidarity_benefits
  nth_simulate_management_costs nth_simulate_coverage_rate nth_simulate_management_ratio
  nth_simulate_account_balance nth_simulate_family_allocations nth_simulate_ars
  nth_simulate_apl nth_simulate_rsa nth_simulate_birth_grant

lemma noise_at_fixed:
  assumes "\<forall>loc scale g. fst (normal loc scale g) = (1::real)"
  shows "noise_at (normal 1 sd) k g = 1"
  using assms by (simp add: noise_at_def)

lemma raw_row_noise_fixed:
  assumes "\<forall>loc scale g. fst (normal loc scale g) = (1::real)" and "i < length dates"
  shows "raw_row normal self dates g i = raw_row quiet self dates () i"
proof -
  have q: "\<forall>loc scale g. fst (quiet loc scale g) = (1::real)"
    by (simp add: quiet_def)
  from assms(2) show ?thesis
    by (simp add: raw_row_def nth_simulate noise_at_fixed [OF assms(1)] noise_at_fixed [OF q])
qed

lemma generate_noise_fixed:
  assumes "\<forall>loc scale g. fst (normal loc scale g) = (1::real)"
  shows "map_sum id fst (generate_financial_data normal self g) =
         map_sum id fst (generate_financial_data quiet self ())"
proof (cases "date_range (start_year self) (end_year self)")
  case (Inl e)
  then show ?thesis
    by (simp add: generate_financial_data_def)
next
  case (Inr dates)
  have eq: "map (raw_row normal self dates g) [0..<length dates] =
        map (raw_row quiet self dates ()) [0..<length dates]"
    by (rule map_cong) (simp_all add: raw_row_noise_fixed [OF assms])
  show ?thesis
    unfolding generate_financial_data_Inr [OF Inr] eq by simp
qed

text \<open>
  C7. With the noise fixed at 1.0 the generated table is a function of the analyzer alone
  (territory, profile, year range): two runs on the same analyzer give the same outcome,
  the same exception or tables equal in every field of every year, whatever the two
  generators and their states are, as long as every draw of both is 1.0.
\<close>

theorem generation_deterministic_without_noise:
  assumes "\<forall>loc scale g. fst (normal1 loc scale g) = (1::real)"
    and "\<forall>loc scale g. fst (normal2 loc scale g) = (1::real)"
  shows "map_sum id fst (generate_financial_data normal1 self g1) =
         map_sum id fst (generate_financial_data normal2 self g2)"
  by (simp add: generate_noise_fixed [OF assms(1)] generate_noise_fixed [OF assms(2)])

theorem generation_deterministic_without_noise_witness:
  "(\<forall>loc scale g. fst (quiet loc scale g) = (1::real)) \<and>
   (\<forall>loc scale g. fst (counting loc scale g) = (1::real)) \<and>
   map_sum id fst
     (generate_financial_data quiet
        \<lparr>territoire = ''Guyane'', start_year = 2002, end_year = 2025,
         config = \<lparr>allocataires_base = 85000, budget_base = 380,
                   specificites = [''jeunesse'', ''familles_nombreuses'', ''precarite'']\<rparr>\<rparr> ()) =
   map_sum id fst
     (generate_financial_data counting
        \<lparr>territoire = ''Guyane'', start_year = 2002, end_year = 2025,
         config = \<lparr>allocataires_base = 85000, budget_base = 380,
                   specificites = [''jeunesse'', ''familles_nombreuses'', ''precarite'']\<rparr>\<rparr> 7) \<and>
   snd (counting 1 (fl 0.07) 7) \<noteq> 7"
proof -
  have q: "\<forall>loc scale g. fst (quiet loc scale g) = (1::real)"
    by (simp add: quiet_def)
  have c: "\<forall>loc scale g. fst (counting loc scale g) = (1::real)"
    by (simp add: counting_def)
  have s: "snd (counting 1 (fl 0.07) 7) \<noteq> 7"
    by (simp add: counting_def)
  from q c s generation_deterministic_without_noise [OF q c] show ?thesis
    by blast
qed

end
